theory Spec2Isabelle
  imports Main "HOL-Library.Word" "HOL-Library.Monad_Syntax"
begin

unbundle bit_operations_syntax

section \<open>Display utilities of transmission-remote\<close>

type_synonym int64_t = "64 word"

subsection \<open>strlratio\<close>

text \<open>
  \<open>strlratio\<close> chooses the \<open>double\<close> it hands to \<open>strlratio2\<close>. Floating point is
  not evaluated here: the value is recorded as the expression the source computes,
  either the quotient of the two operands or one of the two markers of transmission.h.
\<close>

datatype ratio =
    Quotient int64_t int64_t   \<comment> \<open>\<open>numerator / (double)denominator\<close>\<close>
  | TR_RATIO_INF
  | TR_RATIO_NA

definition strlratio_ratio :: "int64_t \<Rightarrow> int64_t \<Rightarrow> ratio" where
  "strlratio_ratio numerator denominator =
     (if denominator \<noteq> 0 then Quotient numerator denominator
      else if numerator \<noteq> 0 then TR_RATIO_INF
      else TR_RATIO_NA)"

text \<open>
  \<open>strlratio2\<close> forwards to \<open>tr_strratio\<close> of libtransmission with the infinity text
  \<open>Inf\<close>; the formatter is a parameter.
\<close>

definition strlratio2 :: "(ratio \<Rightarrow> string \<Rightarrow> string) \<Rightarrow> ratio \<Rightarrow> string" where
  "strlratio2 tr_strratio r = tr_strratio r ''Inf''"

definition strlratio :: "(ratio \<Rightarrow> string \<Rightarrow> string) \<Rightarrow> int64_t \<Rightarrow> int64_t \<Rightarrow> string" where
  "strlratio tr_strratio numerator denominator =
     strlratio2 tr_strratio (strlratio_ratio numerator denominator)"

section \<open>C library routines used by the argument parsers\<close>

text \<open>
  Strings are C strings: lists of bytes without the terminating NUL. \<open>isspace\<close> and
  \<open>isdigit\<close> are those of the C locale.
\<close>

definition isspace :: "char \<Rightarrow> bool" where
  "isspace c = (c = CHR '' '' \<or> (9 \<le> (of_char c :: nat) \<and> (of_char c :: nat) \<le> 13))"

definition isdigit :: "char \<Rightarrow> bool" where
  "isdigit c = (48 \<le> (of_char c :: nat) \<and> (of_char c :: nat) \<le> 57)"

definition digit_value :: "char \<Rightarrow> int" where
  "digit_value c = int (of_char c :: nat) - 48"

definition decimal :: "string \<Rightarrow> int" where
  "decimal ds = foldl (\<lambda>acc c. acc * 10 + digit_value c) 0 ds"

definition LONG_MAX :: int where "LONG_MAX = 2 ^ 63 - 1"
definition LONG_MIN :: int where "LONG_MIN = - (2 ^ 63)"

text \<open>
  \<open>strtol(nptr, &end, 10)\<close> with a 64-bit \<open>long\<close>: leading white space, an optional
  sign, then decimal digits; the value is clamped to the range of \<open>long\<close>. The result
  is the value and the text \<open>end\<close> points at. Without a digit nothing is converted and
  \<open>end\<close> is \<open>nptr\<close>.
\<close>

definition strtol :: "string \<Rightarrow> int \<times> string" where
  "strtol nptr =
     (let t = dropWhile isspace nptr;
          neg = (t \<noteq> [] \<and> hd t = CHR ''-'');
          u = (if t \<noteq> [] \<and> (hd t = CHR ''-'' \<or> hd t = CHR ''+'') then tl t else t);
          ds = takeWhile isdigit u
      in if ds = [] then (0, nptr)
         else (max LONG_MIN (min LONG_MAX (if neg then - decimal ds else decimal ds)),
               dropWhile isdigit u))"

text \<open>The conversion of a \<open>long\<close> to \<open>int\<close> keeps the low 32 bits.\<close>

definition int_of_long :: "int \<Rightarrow> int" where
  "int_of_long n = signed_take_bit 31 n"

definition atoi :: "string \<Rightarrow> int" where
  "atoi nptr = int_of_long (fst (strtol nptr))"

text \<open>\<open>printf("%" PRId64)\<close>: a decimal numeral, with a minus sign when negative.\<close>

function dec_nat :: "nat \<Rightarrow> string" where
  "dec_nat n = (if n < 10 then [''0123456789'' ! n]
                else dec_nat (n div 10) @ [''0123456789'' ! (n mod 10)])"
  by pat_completeness auto
termination
  by (relation "measure (\<lambda>n. n)") auto

declare dec_nat.simps [simp del]

definition dec_int :: "int \<Rightarrow> string" where
  "dec_int i = (if i < 0 then CHR ''-'' # dec_nat (nat (- i)) else dec_nat (nat i))"

section \<open>Rendering of responses\<close>

subsection \<open>getStatusString\<close>

text \<open>
  A dictionary of a response is given by what each lookup in it finds: a field is
  \<open>None\<close> when \<open>tr_variantDictFindInt\<close>, \<open>FindBool\<close> or \<open>FindReal\<close> returns false.
  The number under \<open>status\<close> is given by the enumerator of \<open>tr_torrent_activity\<close>
  (transmission.h) that it equals, if any. A \<open>double\<close> is not computed with; its type
  is the parameter \<open>'d\<close>.
\<close>

datatype tr_torrent_activity =
    TR_STATUS_STOPPED
  | TR_STATUS_CHECK_WAIT
  | TR_STATUS_CHECK
  | TR_STATUS_DOWNLOAD_WAIT
  | TR_STATUS_DOWNLOAD
  | TR_STATUS_SEED_WAIT
  | TR_STATUS_SEED
  | NoEnumerator

record 'd torrent_fields =
  status_found :: "tr_torrent_activity option"
  isFinished :: "bool option"
  recheckProgress :: "'d option"
  peersGettingFromUs :: "int64_t option"
  peersSendingToUs :: "int64_t option"
  leftUntilDone :: "int64_t option"
  sizeWhenDone :: "int64_t option"
  desiredAvailable :: "int64_t option"

text \<open>
  A lookup into a variable that was initialised: the value stays when nothing is found.
\<close>

definition found_or :: "'a \<Rightarrow> 'a option \<Rightarrow> 'a" where
  "found_or d x = (case x of Some v \<Rightarrow> v | None \<Rightarrow> d)"

text \<open>\<open>tr_strlcpy\<close> and \<open>tr_snprintf\<close> keep at most \<open>buflen - 1\<close> characters.\<close>

definition tr_strlcpy :: "string \<Rightarrow> nat \<Rightarrow> string" where
  "tr_strlcpy src buflen = take (buflen - 1) src"

text \<open>
  \<open>percent0 p\<close> stands for the text that \<open>%.0f\<close> prints for \<open>floor(p * 100.0)\<close>.
\<close>

definition getStatusString :: "('d \<Rightarrow> string) \<Rightarrow> 'd torrent_fields \<Rightarrow> nat \<Rightarrow> string" where
  "getStatusString percent0 t buflen =
     (case status_found t of
        None \<Rightarrow> []
      | Some status \<Rightarrow>
          if status = TR_STATUS_DOWNLOAD_WAIT \<or> status = TR_STATUS_SEED_WAIT
          then tr_strlcpy ''Queued'' buflen
          else if status = TR_STATUS_STOPPED then
            (if isFinished t = Some True then tr_strlcpy ''Finished'' buflen
             else tr_strlcpy ''Stopped'' buflen)
          else if status = TR_STATUS_CHECK_WAIT \<or> status = TR_STATUS_CHECK then
            (let str = (if status = TR_STATUS_CHECK_WAIT then ''Will Verify'' else ''Verifying'')
             in case recheckProgress t of
                  Some percent \<Rightarrow> tr_strlcpy (str @ '' ('' @ percent0 percent @ ''%)'') buflen
                | None \<Rightarrow> tr_strlcpy str buflen)
          else if status = TR_STATUS_DOWNLOAD \<or> status = TR_STATUS_SEED then
            (let fromUs = found_or 0 (peersGettingFromUs t);
                 toUs = found_or 0 (peersSendingToUs t)
             in if fromUs \<noteq> 0 \<and> toUs \<noteq> 0 then tr_strlcpy ''Up & Down'' buflen
                else if toUs \<noteq> 0 then tr_strlcpy ''Downloading'' buflen
                else if fromUs \<noteq> 0 then
                  (if 0 <s found_or 0 (leftUntilDone t) then tr_strlcpy ''Uploading'' buflen
                   else tr_strlcpy ''Seeding'' buflen)
                else tr_strlcpy ''Idle'' buflen)
          else tr_strlcpy ''Unknown'' buflen)"

subsection \<open>Completion percentages\<close>

text \<open>
  The text printed for a percentage. Floating point is not evaluated: a percentage is
  recorded as the expression \<open>100.0 * numerator / divisor\<close> that the source hands to the
  formatter, with the 64-bit operands it has.
\<close>

datatype percent_text =
    Percent int64_t int64_t    \<comment> \<open>\<open>100.0 * numerator / divisor\<close>, formatted\<close>
  | NotAvailable               \<comment> \<open>the text \<open>n/a\<close>\<close>

text \<open>\<open>doneStr\<close> of \<open>printTorrentList\<close>, for a torrent whose fields were all found.\<close>

definition printTorrentList_doneStr :: "int64_t \<Rightarrow> int64_t \<Rightarrow> percent_text" where
  "printTorrentList_doneStr sizeWhenDone' leftUntilDone' =
     (if sizeWhenDone' \<noteq> 0 then Percent (sizeWhenDone' - leftUntilDone') sizeWhenDone'
      else NotAvailable)"

text \<open>The lines \<open>Percent Done\<close> and \<open>Availability\<close> of \<open>printDetails\<close>.\<close>

datatype details_line =
    PercentDone percent_text       \<comment> \<open>\<open>  Percent Done: %s%%\<close>\<close>
  | AvailabilityNone               \<comment> \<open>\<open>  Availability: None\<close>\<close>
  | Availability percent_text      \<comment> \<open>\<open>  Availability: %s%%\<close>\<close>

definition printDetails_percent_done :: "'d torrent_fields \<Rightarrow> details_line list" where
  "printDetails_percent_done t =
     (case (sizeWhenDone t, leftUntilDone t) of
        (Some i, Some j) \<Rightarrow> [PercentDone (Percent (i - j) i)]
      | _ \<Rightarrow> [])"

definition printDetails_availability :: "'d torrent_fields \<Rightarrow> details_line list" where
  "printDetails_availability t =
     (case sizeWhenDone t of
        None \<Rightarrow> []
      | Some i \<Rightarrow>
          (if i <s 1 then [AvailabilityNone] else [])
          @ (case (desiredAvailable t, leftUntilDone t) of
               (Some j, Some k) \<Rightarrow> [Availability (Percent (j + (i - k)) i)]
             | _ \<Rightarrow> []))"

text \<open>The divisors of the percentages in a list of lines.\<close>

fun divisors :: "details_line list \<Rightarrow> int64_t list" where
  "divisors [] = []"
| "divisors (PercentDone (Percent n d) # ls) = d # divisors ls"
| "divisors (Availability (Percent n d) # ls) = d # divisors ls"
| "divisors (l # ls) = divisors ls"

subsection \<open>printSession: the limits\<close>

record 'd session_fields =
  alt_speed_down :: "int64_t option"
  alt_speed_enabled :: "bool option"
  alt_speed_time_begin :: "int64_t option"
  alt_speed_time_enabled :: "bool option"
  alt_speed_time_end :: "int64_t option"
  alt_speed_time_day :: "int64_t option"
  alt_speed_up :: "int64_t option"
  peer_limit_global :: "int64_t option"
  speed_limit_down :: "int64_t option"
  speed_limit_down_enabled :: "bool option"
  speed_limit_up :: "int64_t option"
  speed_limit_up_enabled :: "bool option"
  seedRatioLimit :: "'d option"
  seedRatioLimited :: "bool option"

datatype session_line =
    LimitsHeading                                   \<comment> \<open>\<open>LIMITS\<close>\<close>
  | PeerLimit int64_t                               \<comment> \<open>\<open>  Peer limit: %d\<close>\<close>
  | DefaultSeedRatioLimit string                    \<comment> \<open>\<open>  Default seed ratio limit: %s\<close>\<close>
  | UploadSpeedLimit string string string string string
      \<comment> \<open>\<open>  Upload speed limit: %s (%s limit: %s; %s turtle limit: %s)\<close>\<close>
  | DownloadSpeedLimit string string string string string
      \<comment> \<open>\<open>  Download speed limit: %s (%s limit: %s; %s turtle limit: %s)\<close>\<close>
  | TurtleSchedule int int int int int64_t
      \<comment> \<open>\<open>  Turtle schedule: %02d:%02d - %02d:%02d\<close>, then the days of the mask\<close>

text \<open>Division and remainder of C on signed 64-bit values, truncating towards zero.\<close>

definition c_div :: "int64_t \<Rightarrow> int \<Rightarrow> int" where
  "c_div a b = sgn (sint a) * sgn b * (\<bar>sint a\<bar> div \<bar>b\<bar>)"

definition c_mod :: "int64_t \<Rightarrow> int \<Rightarrow> int" where
  "c_mod a b = sint a - b * c_div a b"

text \<open>
  The block of \<open>printSession\<close> that prints the limits, entered when all fourteen lookups
  succeed. \<open>fmt\<close> stands for \<open>tr_formatter_speed_KBps\<close> and \<open>ratio_text\<close> for
  \<open>strlratio2\<close> on the \<open>double\<close> found.
\<close>

definition printSession_limits ::
  "(int64_t \<Rightarrow> string) \<Rightarrow> ('d \<Rightarrow> string) \<Rightarrow> 'd session_fields \<Rightarrow> session_line list" where
  "printSession_limits fmt ratio_text args =
     (case
        do {
          altDown \<leftarrow> alt_speed_down args;
          altEnabled \<leftarrow> alt_speed_enabled args;
          altBegin \<leftarrow> alt_speed_time_begin args;
          altTimeEnabled \<leftarrow> alt_speed_time_enabled args;
          altEnd \<leftarrow> alt_speed_time_end args;
          altDay \<leftarrow> alt_speed_time_day args;
          altUp \<leftarrow> alt_speed_up args;
          peerLimit \<leftarrow> peer_limit_global args;
          downLimit \<leftarrow> speed_limit_down args;
          downEnabled \<leftarrow> speed_limit_down_enabled args;
          upLimit \<leftarrow> speed_limit_up args;
          upEnabled \<leftarrow> speed_limit_up_enabled args;
          seedRatioLimit' \<leftarrow> seedRatioLimit args;
          seedRatioLimited' \<leftarrow> seedRatioLimited args;
          Some
            ([LimitsHeading,
              PeerLimit peerLimit,
              DefaultSeedRatioLimit
                (if seedRatioLimited' then ratio_text seedRatioLimit' else ''Unlimited''),
              UploadSpeedLimit
                (if altEnabled then fmt altUp
                 else if upEnabled then fmt upLimit
                 else ''Unlimited'')
                (if upEnabled then ''Enabled'' else ''Disabled'') (fmt upLimit)
                (if altEnabled then ''Enabled'' else ''Disabled'') (fmt altUp),
              DownloadSpeedLimit
                (if altEnabled then fmt altDown
                 else if downEnabled then fmt downLimit
                 else ''Unlimited'')
                (if downEnabled then ''Enabled'' else ''Disabled'') (fmt downLimit)
                (if altEnabled then ''Enabled'' else ''Disabled'') (fmt altDown)]
             @ (if altTimeEnabled
                then [TurtleSchedule (int_of_long (c_div altBegin 60)) (int_of_long (c_mod altBegin 60))
                        (int_of_long (c_div altEnd 60)) (int_of_long (c_mod altEnd 60)) altDay]
                else []))
        } of
        Some ls \<Rightarrow> ls
      | None \<Rightarrow> [])"

text \<open>The effective limits that a list of lines reports.\<close>

fun effective_up :: "session_line list \<Rightarrow> string list" where
  "effective_up [] = []"
| "effective_up (UploadSpeedLimit eff a b c d # ls) = eff # effective_up ls"
| "effective_up (l # ls) = effective_up ls"

fun effective_down :: "session_line list \<Rightarrow> string list" where
  "effective_down [] = []"
| "effective_down (DownloadSpeedLimit eff a b c d # ls) = eff # effective_down ls"
| "effective_down (l # ls) = effective_down ls"

text \<open>All fourteen lookups of the limits block succeed.\<close>

definition all_found :: "'d session_fields \<Rightarrow> bool" where
  "all_found args =
     (alt_speed_down args \<noteq> None \<and> alt_speed_enabled args \<noteq> None
      \<and> alt_speed_time_begin args \<noteq> None \<and> alt_speed_time_enabled args \<noteq> None
      \<and> alt_speed_time_end args \<noteq> None \<and> alt_speed_time_day args \<noteq> None
      \<and> alt_speed_up args \<noteq> None \<and> peer_limit_global args \<noteq> None
      \<and> speed_limit_down args \<noteq> None \<and> speed_limit_down_enabled args \<noteq> None
      \<and> speed_limit_up args \<noteq> None \<and> speed_limit_up_enabled args \<noteq> None
      \<and> seedRatioLimit args \<noteq> None \<and> seedRatioLimited args \<noteq> None)"

subsection \<open>Replies used as examples\<close>

text \<open>
  A torrent that seeds to three peers, a torrent none of whose files is wanted, and
  a session that has the turtle limits switched on.
\<close>

definition example_torrent :: "unit torrent_fields" where
  "example_torrent =
     \<lparr>status_found = Some TR_STATUS_SEED, isFinished = Some False, recheckProgress = None,
      peersGettingFromUs = Some 3, peersSendingToUs = Some 0, leftUntilDone = Some 0,
      sizeWhenDone = Some 1000, desiredAvailable = Some 0\<rparr>"

definition unwanted_torrent :: "unit torrent_fields" where
  "unwanted_torrent =
     \<lparr>status_found = Some TR_STATUS_STOPPED, isFinished = Some False, recheckProgress = None,
      peersGettingFromUs = Some 0, peersSendingToUs = Some 0, leftUntilDone = Some 0,
      sizeWhenDone = Some 0, desiredAvailable = Some 0\<rparr>"

definition example_session :: "unit session_fields" where
  "example_session =
     \<lparr>alt_speed_down = Some 50, alt_speed_enabled = Some True, alt_speed_time_begin = Some 540,
      alt_speed_time_enabled = Some False, alt_speed_time_end = Some 1020,
      alt_speed_time_day = Some 127, alt_speed_up = Some 20, peer_limit_global = Some 200,
      speed_limit_down = Some 100, speed_limit_down_enabled = Some True,
      speed_limit_up = Some 100, speed_limit_up_enabled = Some False,
      seedRatioLimit = Some (), seedRatioLimited = Some False\<rparr>"

definition example_speed :: "int64_t \<Rightarrow> string" where
  "example_speed n = dec_int (sint n) @ '' kB/s''"

section \<open>Requests\<close>

text \<open>
  A key of a request or response dictionary is a \<open>tr_quark\<close> constant
  \<open>TR_KEY_name\<close>; it is written \<open>TR_KEY ''name''\<close>. A dictionary under construction
  is the sequence of entries added to it, in the order of the \<open>tr_variantDictAdd...\<close>
  calls: it records the calls made on the dictionary, and what the library does with two
  entries under one key is not part of it. A real number read by \<open>atof\<close> is kept as
  the text it is read from.
\<close>

datatype tr_quark = TR_KEY string

datatype tr_variant =
    VInt int
  | VBool bool
  | VStr string
  | VRealAtof string
  | VEnum string              \<comment> \<open>an enumerator of transmission.h, by name\<close>
  | VQuark tr_quark
  | VList "tr_variant list"

type_synonym dict = "(tr_quark \<times> tr_variant) list"

definition dictAdd :: "dict \<Rightarrow> tr_quark \<Rightarrow> tr_variant \<Rightarrow> dict" where
  "dictAdd d k v = d @ [(k, v)]"

text \<open>\<open>tr_variantDictFindList\<close>: the first entry under the key, when it is a list.\<close>

definition dictFindList :: "dict \<Rightarrow> tr_quark \<Rightarrow> tr_variant list option" where
  "dictFindList d k = (case map_of d k of Some (VList xs) \<Rightarrow> Some xs | _ \<Rightarrow> None)"

fun dictSetFirst :: "dict \<Rightarrow> tr_quark \<Rightarrow> tr_variant \<Rightarrow> dict" where
  "dictSetFirst [] k v = []"
| "dictSetFirst ((k', v') # d) k v =
     (if k' = k then (k', v) # d else (k', v') # dictSetFirst d k v)"

text \<open>
  The idiom of the tracker and label options: find the list under the key, add an
  empty one when there is none, and append to it.
\<close>

definition dictListAppend :: "dict \<Rightarrow> tr_quark \<Rightarrow> tr_variant list \<Rightarrow> dict" where
  "dictListAppend d k vs =
     (case dictFindList d k of
        Some xs \<Rightarrow> dictSetFirst d k (VList (xs @ vs))
      | None \<Rightarrow> dictAdd d k (VList vs))"

text \<open>
  Lines written to \<open>stderr\<close>, one constructor for each format string, and the usage
  text.
\<close>

datatype message =
    NotANumber string            \<comment> \<open>\<open>Not a number: "%s"\<close>\<close>
  | NoTorrentSpecified           \<comment> \<open>\<open>No torrent specified!  Please use the -t option first.\<close>\<close>
  | TimeOfDayFormat              \<comment> \<open>\<open>Please specify the time of day in 'hhmm' format.\<close>\<close>
  | DaysOfWeekFormat             \<comment> \<open>\<open>Please specify the days of the week in '1-3,4,7' format.\<close>\<close>
  | NoFilesSpecified             \<comment> \<open>\<open>No files specified!\<close>\<close>
  | AuthEnvNotSet                \<comment> \<open>\<open>The TR_AUTH environment variable is not set\<close>\<close>
  | VersionLine                  \<comment> \<open>\<open>transmission-remote\<close> and the version string\<close>
  | InvalidOption                \<comment> \<open>\<open>invalid option\<close>\<close>
  | UnknownOption string         \<comment> \<open>\<open>Unknown option: %s\<close>\<close>
  | GotOpt int                   \<comment> \<open>\<open>got opt [%d]\<close>\<close>
  | UnrecognizedArgument int     \<comment> \<open>\<open>unrecognized argument %d\<close>\<close>
  | UnexpectedResponse           \<comment> \<open>\<open>Unexpected response: %s\<close>\<close>
  | Usage                        \<comment> \<open>the text of \<open>showUsage\<close>\<close>

text \<open>
  What \<open>processResponse\<close> reads of a reply: the body may fail to parse; otherwise the
  lookups of \<open>result\<close>, of \<open>tag\<close> and of \<open>arguments.torrent-added.id\<close> each find a
  value or not.
\<close>

datatype response =
    Unparsable
  | Response "string option" "int option" "int option"

datatype curl_result =
    CurlError                    \<comment> \<open>\<open>curl_easy_perform\<close> did not return \<open>CURLE_OK\<close>\<close>
  | Http int response            \<comment> \<open>the response code and the body\<close>

text \<open>
  A request: the entries \<open>method\<close> (the field \<open>rpc_method\<close>), \<open>tag\<close> and
  \<open>arguments\<close> of the top-level dictionary; the last two may be absent.
\<close>

record request =
  rpc_method :: string
  tag :: "int option"
  arguments :: "dict option"

text \<open>
  Library routines of libtransmission and the surroundings of the process that the
  command line client calls. Their code is not part of the client; they are parameters
  of the model. The transport answers a POST from the requests posted so far, the
  last one being the request in flight.
\<close>

record env =
  tr_parseNumberRange :: "string \<Rightarrow> int list"
  tr_rpc_parse_list_str :: "string \<Rightarrow> tr_variant"
  tr_strvSep_labels :: "string \<Rightarrow> string list"
  getEncodedMetainfo :: "string \<Rightarrow> string"
  TR_AUTH :: "string option"
  transport :: "request list \<Rightarrow> curl_result"

subsection \<open>addIdArg\<close>

definition tr_str_is_empty :: "string option \<Rightarrow> bool" where
  "tr_str_is_empty s = (case s of None \<Rightarrow> True | Some t \<Rightarrow> t = [])"

definition addIdArg ::
  "env \<Rightarrow> dict \<Rightarrow> string \<Rightarrow> string option \<Rightarrow> dict \<times> message list" where
  "addIdArg e args id_str fallback =
     (let (id_str1, msgs) =
            (if id_str = [] then
               (if tr_str_is_empty fallback then (''-1'', [NoTorrentSpecified])
                else (the fallback, []))
             else (id_str, []))
      in if id_str1 = ''active'' then
           (dictAdd args (TR_KEY ''ids'') (VStr ''recently-active''), msgs)
         else if id_str1 \<noteq> ''all'' then
           (let isList = (CHR '','' \<in> set id_str1 \<or> CHR ''-'' \<in> set id_str1);
                isNum = list_all isdigit id_str1
            in if isNum \<or> isList then
                 (dictAdd args (TR_KEY ''ids'') (tr_rpc_parse_list_str e id_str1), msgs)
               else (dictAdd args (TR_KEY ''ids'') (VStr id_str1), msgs))
         else (args, msgs))"

subsection \<open>addTime\<close>

definition addTime :: "dict \<Rightarrow> tr_quark \<Rightarrow> string option \<Rightarrow> dict \<times> message list" where
  "addTime args key arg =
     (let (time, success) =
            (case arg of
               None \<Rightarrow> (0, False)
             | Some a \<Rightarrow>
                 if length a = 4 then
                   (let hh = take 2 a;
                        mm = drop 2 a;
                        hour = atoi hh;
                        minute = atoi mm
                    in if 0 \<le> hour \<and> hour < 24 \<and> 0 \<le> minute \<and> minute < 60
                       then (minute + hour * 60, True)
                       else (0, False))
                 else (0, False))
      in if success then (dictAdd args key (VInt time), [])
         else (args, [TimeOfDayFormat]))"

subsection \<open>addDays\<close>

text \<open>The loop over the parsed numbers; \<open>days |= 1 << day\<close> on a 32-bit \<open>int\<close>.\<close>

fun addDays_loop :: "int \<Rightarrow> int list \<Rightarrow> int" where
  "addDays_loop days [] = days"
| "addDays_loop days (day # rest) =
     (if day < 0 \<or> day > 7 then addDays_loop days rest
      else addDays_loop (days OR push_bit (nat (if day = 7 then 0 else day)) 1) rest)"

definition addDays :: "env \<Rightarrow> dict \<Rightarrow> tr_quark \<Rightarrow> string option \<Rightarrow> dict \<times> message list" where
  "addDays e args key arg =
     (let days = (case arg of None \<Rightarrow> 0
                  | Some a \<Rightarrow> addDays_loop 0 (tr_parseNumberRange e a))
      in if days \<noteq> 0 then (dictAdd args key (VInt days), [])
         else (args, [DaysOfWeekFormat]))"

subsection \<open>addLabels and addFiles\<close>

definition addLabels :: "env \<Rightarrow> dict \<Rightarrow> string \<Rightarrow> dict" where
  "addLabels e args comma_delimited_labels =
     dictListAppend args (TR_KEY ''labels'') (map VStr (tr_strvSep_labels e comma_delimited_labels))"

definition addFiles :: "env \<Rightarrow> dict \<Rightarrow> tr_quark \<Rightarrow> string option \<Rightarrow> dict \<times> message list" where
  "addFiles e args key arg =
     (let (arg1, msgs) = (if tr_str_is_empty arg then (''-1'', [NoFilesSpecified])
                          else (the arg, []))
      in if arg1 \<noteq> ''all''
         then (dictAdd args key (VList (map VInt (tr_parseNumberRange e arg1))), msgs)
         else (dictAdd args key (VList []), msgs))"

section \<open>Command-line arguments\<close>

subsection \<open>Option values and modes\<close>

text \<open>
  \<open>tr_getopt\<close> returns one of the codes \<open>TR_OPT_ERR\<close> and \<open>TR_OPT_UNK\<close> or the
  value of an entry of the option table; \<open>TR_OPT_DONE\<close> ends the command line. An
  option value that is a character constant is written \<open>ch CHR ''a''\<close>.
\<close>

datatype getopt = TR_OPT_ERR | TR_OPT_UNK | Opt int

abbreviation ch :: "char \<Rightarrow> int" where
  "ch c \<equiv> int (of_char c)"

definition EXIT_SUCCESS :: int where "EXIT_SUCCESS = 0"
definition EXIT_FAILURE :: int where "EXIT_FAILURE = 1"

definition TAG_SESSION :: int where "TAG_SESSION = 0"
definition TAG_STATS :: int where "TAG_STATS = 1"
definition TAG_DETAILS :: int where "TAG_DETAILS = 2"
definition TAG_FILES :: int where "TAG_FILES = 3"
definition TAG_LIST :: int where "TAG_LIST = 4"
definition TAG_PEERS :: int where "TAG_PEERS = 5"
definition TAG_PIECES :: int where "TAG_PIECES = 6"
definition TAG_PORTTEST :: int where "TAG_PORTTEST = 7"
definition TAG_TORRENT_ADD :: int where "TAG_TORRENT_ADD = 8"
definition TAG_TRACKERS :: int where "TAG_TRACKERS = 9"

definition MODE_TORRENT_START :: int where "MODE_TORRENT_START = push_bit 0 1"
definition MODE_TORRENT_STOP :: int where "MODE_TORRENT_STOP = push_bit 1 1"
definition MODE_TORRENT_VERIFY :: int where "MODE_TORRENT_VERIFY = push_bit 2 1"
definition MODE_TORRENT_REANNOUNCE :: int where "MODE_TORRENT_REANNOUNCE = push_bit 3 1"
definition MODE_TORRENT_SET :: int where "MODE_TORRENT_SET = push_bit 4 1"
definition MODE_TORRENT_GET :: int where "MODE_TORRENT_GET = push_bit 5 1"
definition MODE_TORRENT_ADD :: int where "MODE_TORRENT_ADD = push_bit 6 1"
definition MODE_TORRENT_REMOVE :: int where "MODE_TORRENT_REMOVE = push_bit 7 1"
definition MODE_TORRENT_SET_LOCATION :: int where "MODE_TORRENT_SET_LOCATION = push_bit 8 1"
definition MODE_SESSION_SET :: int where "MODE_SESSION_SET = push_bit 9 1"
definition MODE_SESSION_GET :: int where "MODE_SESSION_GET = push_bit 10 1"
definition MODE_SESSION_STATS :: int where "MODE_SESSION_STATS = push_bit 11 1"
definition MODE_SESSION_CLOSE :: int where "MODE_SESSION_CLOSE = push_bit 12 1"
definition MODE_BLOCKLIST_UPDATE :: int where "MODE_BLOCKLIST_UPDATE = push_bit 13 1"
definition MODE_PORT_TEST :: int where "MODE_PORT_TEST = push_bit 14 1"

text \<open>
  \<open>getOptMode\<close>. The \<open>default\<close> branch reports an unrecognized argument and fails
  its assertion: the result is \<open>None\<close> there.
\<close>

fun getOptMode :: "getopt \<Rightarrow> int option" where
  "getOptMode TR_OPT_ERR = Some 0"
| "getOptMode TR_OPT_UNK = Some 0"
| "getOptMode (Opt val) =
     (if val \<in> {ch CHR ''a'', ch CHR ''b'', ch CHR ''n'', 810, ch CHR ''N'', 820,
                 ch CHR ''t'', ch CHR ''V''}
      then Some 0
      else if val \<in> {ch CHR ''c'', ch CHR ''C'', ch CHR ''e'', ch CHR ''m'', ch CHR ''M'',
                 ch CHR ''o'', ch CHR ''O'', ch CHR ''p'', ch CHR ''P'', ch CHR ''x'',
                 ch CHR ''X'', ch CHR ''y'', ch CHR ''Y'', 800, 801, 802, 803, 830, 831,
                 970, 971, 972, 973, 974, 975, 976, 977, 978, 910, 911, 912, 953, 954,
                 990, 991, 992, 993}
      then Some MODE_SESSION_SET
      else if val \<in> {712, 950, 951, 952, 984, 985}
      then Some MODE_TORRENT_SET
      else if val = 920
      then Some MODE_SESSION_GET
      else if val \<in> {ch CHR ''g'', ch CHR ''G'', ch CHR ''L'', 700, 701, 702, 710,
                 900, 901, 902}
      then Some (MODE_TORRENT_SET OR MODE_TORRENT_ADD)
      else if val = 961
      then Some (MODE_TORRENT_SET_LOCATION OR MODE_TORRENT_ADD)
      else if val \<in> {ch CHR ''i'', ch CHR ''l'', 940, 941, 942, 943}
      then Some MODE_TORRENT_GET
      else if val \<in> {ch CHR ''d'', ch CHR ''D'', ch CHR ''u'', ch CHR ''U'', 930}
      then Some (MODE_SESSION_SET OR MODE_TORRENT_SET)
      else if val = ch CHR ''s''
      then Some (MODE_TORRENT_START OR MODE_TORRENT_ADD)
      else if val = ch CHR ''S''
      then Some (MODE_TORRENT_STOP OR MODE_TORRENT_ADD)
      else if val = ch CHR ''w''
      then Some (MODE_SESSION_SET OR MODE_TORRENT_ADD)
      else if val = 850
      then Some MODE_SESSION_CLOSE
      else if val = 963
      then Some MODE_BLOCKLIST_UPDATE
      else if val = 921
      then Some MODE_SESSION_STATS
      else if val = ch CHR ''v''
      then Some MODE_TORRENT_VERIFY
      else if val = 600
      then Some MODE_TORRENT_REANNOUNCE
      else if val = 962
      then Some MODE_PORT_TEST
      else if val \<in> {ch CHR ''r'', 840}
      then Some MODE_TORRENT_REMOVE
      else if val = 960
      then Some MODE_TORRENT_SET_LOCATION
      else None)"

subsection \<open>numarg\<close>

text \<open>
  \<open>numarg\<close> leaves the process with \<open>EXIT_FAILURE\<close> when the text is not a number
  to its end: the result is then the lines it printed.
\<close>

definition numarg :: "string \<Rightarrow> message list + int" where
  "numarg arg =
     (let (num, endp) = strtol arg
      in if endp \<noteq> [] then Inl [NotANumber arg, Usage]
         else Inr (int_of_long num))"

text \<open>
  The argument of an option. \<open>tr_getopt\<close> hands a non-null text to every option the
  table declares with an argument; the places that read \<open>optarg\<close> without a check
  are reached by such options only.
\<close>

definition cstr :: "string option \<Rightarrow> string" where
  "cstr optarg = (case optarg of Some s \<Rightarrow> s | None \<Rightarrow> [])"

subsection \<open>State of processArgs\<close>

text \<open>
  The file-level variables \<open>id\<close>, \<open>debug\<close>, \<open>auth\<close>, \<open>netrc\<close> and \<open>UseSSL\<close>, the
  locals \<open>sset\<close>, \<open>tset\<close>, \<open>tadd\<close> and \<open>status\<close> of \<open>processArgs\<close>, and two
  histories: the requests handed to \<open>curl_easy_perform\<close> and the lines printed.
\<close>

record state =
  id_buf :: string
  debug :: bool
  auth :: "string option"
  netrc :: "string option"
  UseSSL :: bool
  sset :: "request option"
  tset :: "request option"
  tadd :: "request option"
  status :: int
  posted :: "request list"
  printed :: "message list"

definition say :: "message list \<Rightarrow> state \<Rightarrow> state" where
  "say msgs st = st\<lparr>printed := printed st @ msgs\<rparr>"

definition the_args :: "request \<Rightarrow> dict" where
  "the_args r = (case arguments r of Some a \<Rightarrow> a | None \<Rightarrow> [])"

definition set_args :: "request \<Rightarrow> dict \<Rightarrow> request" where
  "set_args r a = r\<lparr>arguments := Some a\<rparr>"

subsection \<open>processResponse and flush\<close>

text \<open>
  \<open>processResponse\<close>, as far as \<open>processArgs\<close> depends on it: the status it returns
  and the torrent id it stores in \<open>id\<close> after a successful \<open>torrent-add\<close>. The
  rendering of the reply on \<open>stdout\<close> is left out here.
\<close>

definition processResponse :: "response \<Rightarrow> state \<Rightarrow> int \<times> state" where
  "processResponse body st =
     (case body of
        Unparsable \<Rightarrow> (EXIT_FAILURE, st)
      | Response result tg added \<Rightarrow>
          (case result of
             None \<Rightarrow> (EXIT_FAILURE, st)
           | Some sv \<Rightarrow>
               if sv \<noteq> ''success'' then (EXIT_FAILURE, st)
               else if (case tg of Some t \<Rightarrow> t | None \<Rightarrow> - 1) = TAG_TORRENT_ADD
               then (EXIT_SUCCESS,
                     case added of Some i \<Rightarrow> st\<lparr>id_buf := dec_int i\<rparr> | None \<Rightarrow> st)
               else (EXIT_SUCCESS, st)))"

text \<open>
  \<open>flush\<close> posts the request and, on response code 409, posts it again with the new
  session id; the retry is a recursive call without a bound.
\<close>

partial_function (option) flush :: "env \<Rightarrow> request \<Rightarrow> state \<Rightarrow> (int \<times> state) option" where
  "flush e benc st =
     (let st1 = st\<lparr>posted := posted st @ [benc]\<rparr>
      in case transport e (posted st1) of
           CurlError \<Rightarrow> Some (EXIT_FAILURE, st1)
         | Http code body \<Rightarrow>
             if code = 200 then Some (processResponse body st1)
             else if code = 409 then flush e benc st1
             else Some (EXIT_FAILURE, say [UnexpectedResponse] st1))"

declare flush.simps [code]

text \<open>\<open>status |= flush(rpcurl, &benc)\<close>.\<close>

definition flush_status :: "env \<Rightarrow> request \<Rightarrow> state \<Rightarrow> state option" where
  "flush_status e benc st =
     map_option (\<lambda>(s, st'). st'\<lparr>status := status st' OR s\<rparr>) (flush e benc st)"

text \<open>The three guarded flushes of the pending requests; each clears its pointer.\<close>

definition flush_sset :: "env \<Rightarrow> state \<Rightarrow> state option" where
  "flush_sset e st =
     (case sset st of
        None \<Rightarrow> Some st
      | Some r \<Rightarrow> map_option (\<lambda>st'. st'\<lparr>sset := None\<rparr>) (flush_status e r st))"

definition flush_tadd :: "env \<Rightarrow> state \<Rightarrow> state option" where
  "flush_tadd e st =
     (case tadd st of
        None \<Rightarrow> Some st
      | Some r \<Rightarrow> map_option (\<lambda>st'. st'\<lparr>tadd := None\<rparr>) (flush_status e r st))"

definition flush_tset :: "env \<Rightarrow> state \<Rightarrow> state option" where
  "flush_tset e st =
     (case tset st of
        None \<Rightarrow> Some st
      | Some r \<Rightarrow>
          (let (args, msgs) = addIdArg e (the_args r) (id_buf st) None
           in map_option (\<lambda>st'. st'\<lparr>tset := None\<rparr>)
                (flush_status e (set_args r args) (say msgs st))))"

definition ensure_sset :: "state \<Rightarrow> request" where
  "ensure_sset st =
     (case sset st of
        Some r \<Rightarrow> r
      | None \<Rightarrow> \<lparr>rpc_method = ''session-set'', tag = None, arguments = Some []\<rparr>)"

definition ensure_tset :: "state \<Rightarrow> request" where
  "ensure_tset st =
     (case tset st of
        Some r \<Rightarrow> r
      | None \<Rightarrow> \<lparr>rpc_method = ''torrent-set'', tag = None, arguments = Some []\<rparr>)"

text \<open>
  How one pass of the option loop ends: the loop goes on, a \<open>break\<close> leaves it, the
  process exits, or an assertion fails.
\<close>

datatype outcome =
    Next state
  | Break state
  | Exit int state
  | AssertFail state

datatype 'a ctl =
    Ok 'a
  | Exits int "message list"
  | AssertFails

subsection \<open>The meta commands\<close>

fun meta :: "env \<Rightarrow> state \<Rightarrow> getopt \<Rightarrow> string option \<Rightarrow> outcome option" where
  "meta e st TR_OPT_ERR optarg =
     Some (Next ((say [InvalidOption, Usage] st)\<lparr>status := status st OR EXIT_FAILURE\<rparr>))"
| "meta e st TR_OPT_UNK optarg =
     Some (Next
       (case tadd st of
          Some r \<Rightarrow>
            (let tmp = getEncodedMetainfo e (cstr optarg)
             in st\<lparr>tadd := Some (set_args r
                   (if tmp \<noteq> [] then dictAdd (the_args r) (TR_KEY ''metainfo'') (VStr tmp)
                    else dictAdd (the_args r) (TR_KEY ''filename'') (VStr (cstr optarg))))\<rparr>)
        | None \<Rightarrow>
            (say [UnknownOption (cstr optarg)] st)\<lparr>status := status st OR EXIT_FAILURE\<rparr>))"
| "meta e st (Opt c) optarg =
     (if c = ch CHR ''a'' then
        do {
          st1 \<leftarrow> flush_sset e st;
          st2 \<leftarrow> flush_tadd e st1;
          st3 \<leftarrow> flush_tset e st2;
          Some (Next (st3\<lparr>tadd := Some \<lparr>rpc_method = ''torrent-add'',
                                          tag = Some TAG_TORRENT_ADD,
                                          arguments = Some []\<rparr>\<rparr>))
        }
      else if c = ch CHR ''b'' then Some (Next (st\<lparr>debug := True\<rparr>))
      else if c = ch CHR ''n'' then Some (Next (st\<lparr>auth := Some (cstr optarg)\<rparr>))
      else if c = 810 then
        (case TR_AUTH e of
           None \<Rightarrow> Some (Exit 0 (say [AuthEnvNotSet] (st\<lparr>auth := None\<rparr>)))
         | Some a \<Rightarrow> Some (Next (st\<lparr>auth := Some a\<rparr>)))
      else if c = ch CHR ''N'' then Some (Next (st\<lparr>netrc := Some (cstr optarg)\<rparr>))
      else if c = 820 then Some (Next (st\<lparr>UseSSL := True\<rparr>))
      else if c = ch CHR ''t'' then
        do {
          st1 \<leftarrow> flush_tadd e st;
          st2 \<leftarrow> flush_tset e st1;
          Some (Next (st2\<lparr>id_buf := take 4095 (cstr optarg)\<rparr>))
        }
      else if c = ch CHR ''V'' then Some (Exit 0 (say [VersionLine] st))
      else Some (Next st))"

subsection \<open>torrent-get\<close>

definition details_keys :: "tr_variant list" where
  "details_keys = map (\<lambda>k. VQuark (TR_KEY k))
     [''activityDate'', ''addedDate'', ''bandwidthPriority'', ''comment'', ''corruptEver'',
      ''creator'', ''dateCreated'', ''desiredAvailable'', ''doneDate'', ''downloadDir'',
      ''downloadedEver'', ''downloadLimit'', ''downloadLimited'', ''error'', ''errorString'',
      ''eta'', ''hashString'', ''haveUnchecked'', ''haveValid'', ''honorsSessionLimits'',
      ''id'', ''isFinished'', ''isPrivate'', ''labels'', ''leftUntilDone'', ''magnetLink'',
      ''name'', ''peersConnected'', ''peersGettingFromUs'', ''peersSendingToUs'',
      ''peer_limit'', ''pieceCount'', ''pieceSize'', ''rateDownload'', ''rateUpload'',
      ''recheckProgress'', ''secondsDownloading'', ''secondsSeeding'', ''seedRatioMode'',
      ''seedRatioLimit'', ''sizeWhenDone'', ''source'', ''startDate'', ''status'',
      ''totalSize'', ''uploadedEver'', ''uploadLimit'', ''uploadLimited'', ''webseeds'',
      ''webseedsSendingToUs'']"

definition list_keys :: "tr_variant list" where
  "list_keys = map (\<lambda>k. VQuark (TR_KEY k))
     [''error'', ''errorString'', ''eta'', ''id'', ''isFinished'', ''leftUntilDone'', ''name'',
      ''peersGettingFromUs'', ''peersSendingToUs'', ''rateDownload'', ''rateUpload'',
      ''sizeWhenDone'', ''status'', ''uploadRatio'']"

definition files_keys :: "tr_variant list" where
  "files_keys = map (\<lambda>k. VQuark (TR_KEY k)) [''files'', ''name'', ''priorities'', ''wanted'']"

definition torrentGet :: "env \<Rightarrow> state \<Rightarrow> int \<Rightarrow> outcome option" where
  "torrentGet e st c =
     do {
       st1 \<leftarrow> flush_tset e st;
       (case (if c = ch CHR ''i'' then Some (TAG_DETAILS, details_keys, None)
              else if c = ch CHR ''l'' then Some (TAG_LIST, list_keys, Some ''all'')
              else if c = 940 then Some (TAG_FILES, files_keys, None)
              else if c = 941 then Some (TAG_PEERS, [VStr ''peers''], None)
              else if c = 942 then Some (TAG_PIECES, [VStr ''pieces'', VStr ''pieceCount''], None)
              else if c = 943 then Some (TAG_TRACKERS, [VStr ''trackerStats''], None)
              else None) of
          None \<Rightarrow> Some (AssertFail st1)
        | Some (tg, field_list, fallback) \<Rightarrow>
            (let (args, msgs) =
                   addIdArg e [(TR_KEY ''fields'', VList field_list)] (id_buf st1) fallback
             in map_option Next
                  (flush_status e
                     \<lparr>rpc_method = ''torrent-get'', tag = Some tg, arguments = Some args\<rparr>
                     (say msgs st1))))
     }"

subsection \<open>session-set\<close>

definition add1 :: "dict \<Rightarrow> tr_quark \<Rightarrow> tr_variant \<Rightarrow> (dict \<times> message list) ctl" where
  "add1 args k v = Ok (dictAdd args k v, [])"

definition add2 ::
  "dict \<Rightarrow> tr_quark \<Rightarrow> tr_variant \<Rightarrow> tr_quark \<Rightarrow> tr_variant \<Rightarrow> (dict \<times> message list) ctl" where
  "add2 args k v k' v' = Ok (dictAdd (dictAdd args k v) k' v', [])"

definition addNumarg :: "dict \<Rightarrow> tr_quark \<Rightarrow> string option \<Rightarrow> (dict \<times> message list) ctl" where
  "addNumarg args k optarg =
     (case numarg (cstr optarg) of
        Inl msgs \<Rightarrow> Exits EXIT_FAILURE msgs
      | Inr n \<Rightarrow> Ok (dictAdd args k (VInt n), []))"

definition sessionSetArgs ::
  "env \<Rightarrow> int \<Rightarrow> string option \<Rightarrow> dict \<Rightarrow> (dict \<times> message list) ctl" where
  "sessionSetArgs e c optarg args =
     (if c = 800 then add2 args (TR_KEY ''script_torrent_done_filename'') (VStr (cstr optarg))
                           (TR_KEY ''script_torrent_done_enabled'') (VBool True)
      else if c = 801 then add1 args (TR_KEY ''script_torrent_done_enabled'') (VBool False)
      else if c = 802 then add2 args (TR_KEY ''script_torrent_done_seeding_filename'') (VStr (cstr optarg))
                           (TR_KEY ''script_torrent_done_seeding_enabled'') (VBool True)
      else if c = 803 then add1 args (TR_KEY ''script_torrent_done_seeding_enabled'') (VBool False)
      else if c = 970 then add1 args (TR_KEY ''alt_speed_enabled'') (VBool True)
      else if c = 971 then add1 args (TR_KEY ''alt_speed_enabled'') (VBool False)
      else if c = 972 then addNumarg args (TR_KEY ''alt_speed_down'') optarg
      else if c = 973 then addNumarg args (TR_KEY ''alt_speed_up'') optarg
      else if c = 974 then add1 args (TR_KEY ''alt_speed_time_enabled'') (VBool True)
      else if c = 975 then add1 args (TR_KEY ''alt_speed_time_enabled'') (VBool False)
      else if c = 976 then Ok (addTime args (TR_KEY ''alt_speed_time_begin'') optarg)
      else if c = 977 then Ok (addTime args (TR_KEY ''alt_speed_time_end'') optarg)
      else if c = 978 then Ok (addDays e args (TR_KEY ''alt_speed_time_day'') optarg)
      else if c = ch CHR ''c'' then add2 args (TR_KEY ''incomplete_dir'') (VStr (cstr optarg))
                           (TR_KEY ''incomplete_dir_enabled'') (VBool True)
      else if c = ch CHR ''C'' then add1 args (TR_KEY ''incomplete_dir_enabled'') (VBool False)
      else if c = ch CHR ''e'' then add1 args (TR_KEY ''cache_size_mb'') (VInt (atoi (cstr optarg)))
      else if c = 910 then add1 args (TR_KEY ''encryption'') (VStr ''required'')
      else if c = 911 then add1 args (TR_KEY ''encryption'') (VStr ''preferred'')
      else if c = 912 then add1 args (TR_KEY ''encryption'') (VStr ''tolerated'')
      else if c = ch CHR ''m'' then add1 args (TR_KEY ''port_forwarding_enabled'') (VBool True)
      else if c = ch CHR ''M'' then add1 args (TR_KEY ''port_forwarding_enabled'') (VBool False)
      else if c = ch CHR ''o'' then add1 args (TR_KEY ''dht_enabled'') (VBool True)
      else if c = ch CHR ''O'' then add1 args (TR_KEY ''dht_enabled'') (VBool False)
      else if c = 830 then add1 args (TR_KEY ''utp_enabled'') (VBool True)
      else if c = 831 then add1 args (TR_KEY ''utp_enabled'') (VBool False)
      else if c = ch CHR ''p'' then addNumarg args (TR_KEY ''peer_port'') optarg
      else if c = ch CHR ''P'' then add1 args (TR_KEY ''peer_port_random_on_start'') (VBool True)
      else if c = ch CHR ''x'' then add1 args (TR_KEY ''pex_enabled'') (VBool True)
      else if c = ch CHR ''X'' then add1 args (TR_KEY ''pex_enabled'') (VBool False)
      else if c = ch CHR ''y'' then add1 args (TR_KEY ''lpd_enabled'') (VBool True)
      else if c = ch CHR ''Y'' then add1 args (TR_KEY ''lpd_enabled'') (VBool False)
      else if c = 953 then add2 args (TR_KEY ''seedRatioLimit'') (VRealAtof (cstr optarg))
                           (TR_KEY ''seedRatioLimited'') (VBool True)
      else if c = 954 then add1 args (TR_KEY ''seedRatioLimited'') (VBool False)
      else if c = 990 then add1 args (TR_KEY ''start_added_torrents'') (VBool False)
      else if c = 991 then add1 args (TR_KEY ''start_added_torrents'') (VBool True)
      else if c = 992 then add1 args (TR_KEY ''trash_original_torrent_files'') (VBool True)
      else if c = 993 then add1 args (TR_KEY ''trash_original_torrent_files'') (VBool False)
      else AssertFails)"

definition sessionSet :: "env \<Rightarrow> state \<Rightarrow> int \<Rightarrow> string option \<Rightarrow> outcome" where
  "sessionSet e st c optarg =
     (let r = ensure_sset st;
          st1 = st\<lparr>sset := Some r\<rparr>
      in case sessionSetArgs e c optarg (the_args r) of
           Ok (args, msgs) \<Rightarrow> Next (say msgs (st1\<lparr>sset := Some (set_args r args)\<rparr>))
         | Exits code msgs \<Rightarrow> Exit code (say msgs st1)
         | AssertFails \<Rightarrow> AssertFail st1)"

subsection \<open>Limits: torrent-set or session-set\<close>

definition addNumarg2 ::
  "dict \<Rightarrow> tr_quark \<Rightarrow> string option \<Rightarrow> tr_quark \<Rightarrow> tr_variant \<Rightarrow> (dict \<times> message list) ctl" where
  "addNumarg2 args k optarg k' v' =
     (case numarg (cstr optarg) of
        Inl msgs \<Rightarrow> Exits EXIT_FAILURE msgs
      | Inr n \<Rightarrow> Ok (dictAdd (dictAdd args k (VInt n)) k' v', []))"

text \<open>
  The switch of the branch for \<open>MODE_SESSION_SET | MODE_TORRENT_SET\<close>; \<open>targs\<close> says
  whether \<open>targs\<close> is non-null, and \<open>args\<close> is the dictionary that is non-null.
\<close>

definition limitArgs ::
  "int \<Rightarrow> string option \<Rightarrow> bool \<Rightarrow> dict \<Rightarrow> (dict \<times> message list) ctl" where
  "limitArgs c optarg targs args =
     (if c = ch CHR ''d'' then
        (if targs then addNumarg2 args (TR_KEY ''downloadLimit'') optarg
                         (TR_KEY ''downloadLimited'') (VBool True)
         else addNumarg2 args (TR_KEY ''speed_limit_down'') optarg
                         (TR_KEY ''speed_limit_down_enabled'') (VBool True))
      else if c = ch CHR ''D'' then
        (if targs then add1 args (TR_KEY ''downloadLimited'') (VBool False)
         else add1 args (TR_KEY ''speed_limit_down_enabled'') (VBool False))
      else if c = ch CHR ''u'' then
        (if targs then addNumarg2 args (TR_KEY ''uploadLimit'') optarg
                         (TR_KEY ''uploadLimited'') (VBool True)
         else addNumarg2 args (TR_KEY ''speed_limit_up'') optarg
                         (TR_KEY ''speed_limit_up_enabled'') (VBool True))
      else if c = ch CHR ''U'' then
        (if targs then add1 args (TR_KEY ''uploadLimited'') (VBool False)
         else add1 args (TR_KEY ''speed_limit_up_enabled'') (VBool False))
      else if c = 930 then
        (if targs then add1 args (TR_KEY ''peer_limit'') (VInt (atoi (cstr optarg)))
         else add1 args (TR_KEY ''peer_limit_global'') (VInt (atoi (cstr optarg))))
      else AssertFails)"

definition limits :: "state \<Rightarrow> int \<Rightarrow> string option \<Rightarrow> outcome" where
  "limits st c optarg =
     (if id_buf st \<noteq> [] then
        (let r = ensure_tset st;
             st1 = st\<lparr>tset := Some r\<rparr>
         in case limitArgs c optarg True (the_args r) of
              Ok (args, msgs) \<Rightarrow> Next (say msgs (st1\<lparr>tset := Some (set_args r args)\<rparr>))
            | Exits code msgs \<Rightarrow> Exit code (say msgs st1)
            | AssertFails \<Rightarrow> AssertFail st1)
      else
        (let r = ensure_sset st;
             st1 = st\<lparr>sset := Some r\<rparr>
         in case limitArgs c optarg False (the_args r) of
              Ok (args, msgs) \<Rightarrow> Next (say msgs (st1\<lparr>sset := Some (set_args r args)\<rparr>))
            | Exits code msgs \<Rightarrow> Exit code (say msgs st1)
            | AssertFails \<Rightarrow> AssertFail st1))"

subsection \<open>torrent-set\<close>

definition torrentSetArgs :: "int \<Rightarrow> string option \<Rightarrow> dict \<Rightarrow> (dict \<times> message list) ctl" where
  "torrentSetArgs c optarg args =
     (if c = 712 then
        Ok (dictListAppend args (TR_KEY ''trackerRemove'') [VInt (atoi (cstr optarg))], [])
      else if c = 950 then add2 args (TR_KEY ''seedRatioLimit'') (VRealAtof (cstr optarg))
                                (TR_KEY ''seedRatioMode'') (VEnum ''TR_RATIOLIMIT_SINGLE'')
      else if c = 951 then add1 args (TR_KEY ''seedRatioMode'') (VEnum ''TR_RATIOLIMIT_GLOBAL'')
      else if c = 952 then add1 args (TR_KEY ''seedRatioMode'') (VEnum ''TR_RATIOLIMIT_UNLIMITED'')
      else if c = 984 then add1 args (TR_KEY ''honorsSessionLimits'') (VBool True)
      else if c = 985 then add1 args (TR_KEY ''honorsSessionLimits'') (VBool False)
      else AssertFails)"

definition torrentSet :: "state \<Rightarrow> int \<Rightarrow> string option \<Rightarrow> outcome" where
  "torrentSet st c optarg =
     (let r = ensure_tset st;
          st1 = st\<lparr>tset := Some r\<rparr>
      in case torrentSetArgs c optarg (the_args r) of
           Ok (args, msgs) \<Rightarrow> Next (say msgs (st1\<lparr>tset := Some (set_args r args)\<rparr>))
         | Exits code msgs \<Rightarrow> Exit code (say msgs st1)
         | AssertFails \<Rightarrow> AssertFail st1)"

subsection \<open>Settings of a torrent being added or of the current torrents\<close>

definition torrentSetOrAddArgs ::
  "env \<Rightarrow> int \<Rightarrow> string option \<Rightarrow> dict \<Rightarrow> (dict \<times> message list) ctl" where
  "torrentSetOrAddArgs e c optarg args =
     (if c = ch CHR ''g'' then Ok (addFiles e args (TR_KEY ''files_wanted'') optarg)
      else if c = ch CHR ''G'' then Ok (addFiles e args (TR_KEY ''files_unwanted'') optarg)
      else if c = ch CHR ''L'' then Ok (addLabels e args (cstr optarg), [])
      else if c = 900 then Ok (addFiles e args (TR_KEY ''priority_high'') optarg)
      else if c = 901 then Ok (addFiles e args (TR_KEY ''priority_normal'') optarg)
      else if c = 902 then Ok (addFiles e args (TR_KEY ''priority_low'') optarg)
      else if c = 700 then add1 args (TR_KEY ''bandwidthPriority'') (VInt 1)
      else if c = 701 then add1 args (TR_KEY ''bandwidthPriority'') (VInt 0)
      else if c = 702 then add1 args (TR_KEY ''bandwidthPriority'') (VInt (- 1))
      else if c = 710 then
        Ok (dictListAppend args (TR_KEY ''trackerAdd'') [VStr (cstr optarg)], [])
      else AssertFails)"

definition torrentSetOrAdd :: "env \<Rightarrow> state \<Rightarrow> int \<Rightarrow> string option \<Rightarrow> outcome" where
  "torrentSetOrAdd e st c optarg =
     (case tadd st of
        Some r \<Rightarrow>
          (case torrentSetOrAddArgs e c optarg (the_args r) of
             Ok (args, msgs) \<Rightarrow> Next (say msgs (st\<lparr>tadd := Some (set_args r args)\<rparr>))
           | Exits code msgs \<Rightarrow> Exit code (say msgs st)
           | AssertFails \<Rightarrow> AssertFail st)
      | None \<Rightarrow>
          (let r = ensure_tset st;
               st1 = st\<lparr>tset := Some r\<rparr>
           in case torrentSetOrAddArgs e c optarg (the_args r) of
                Ok (args, msgs) \<Rightarrow> Next (say msgs (st1\<lparr>tset := Some (set_args r args)\<rparr>))
              | Exits code msgs \<Rightarrow> Exit code (say msgs st1)
              | AssertFails \<Rightarrow> AssertFail st1))"

subsection \<open>Option 961, find\<close>

text \<open>
  Without a pending \<open>torrent-add\<close> the branch ends in a \<open>break\<close> that is not inside
  a \<open>switch\<close>: it leaves the option loop.
\<close>

definition setLocationFind :: "env \<Rightarrow> state \<Rightarrow> string option \<Rightarrow> outcome option" where
  "setLocationFind e st optarg =
     (case tadd st of
        Some r \<Rightarrow>
          Some (Next (st\<lparr>tadd := Some (set_args r
                  (dictAdd (the_args r) (TR_KEY ''download_dir'') (VStr (cstr optarg))))\<rparr>))
      | None \<Rightarrow>
          (let (args, msgs) =
                 addIdArg e [(TR_KEY ''location'', VStr (cstr optarg)),
                             (TR_KEY ''move'', VBool False)] (id_buf st) None
           in map_option Break
                (flush_status e
                   \<lparr>rpc_method = ''torrent-set-location'', tag = None, arguments = Some args\<rparr>
                   (say msgs st))))"

subsection \<open>The remaining options\<close>

text \<open>A request with an \<open>ids\<close> argument for the current torrents, posted at once.\<close>

definition flush_with_ids :: "env \<Rightarrow> string \<Rightarrow> dict \<Rightarrow> state \<Rightarrow> state option" where
  "flush_with_ids e m args0 st =
     (let (args, msgs) = addIdArg e args0 (id_buf st) None
      in flush_status e \<lparr>rpc_method = m, tag = None, arguments = Some args\<rparr> (say msgs st))"

definition other :: "env \<Rightarrow> state \<Rightarrow> int \<Rightarrow> string option \<Rightarrow> outcome option" where
  "other e st c optarg =
     (if c = 920 then
        map_option Next
          (flush_status e \<lparr>rpc_method = ''session-get'', tag = Some TAG_SESSION, arguments = None\<rparr> st)
      else if c = ch CHR ''s'' then
        (case tadd st of
           Some r \<Rightarrow>
             Some (Next (st\<lparr>tadd := Some (set_args r
                     (dictAdd (the_args r) (TR_KEY ''paused'') (VBool False)))\<rparr>))
         | None \<Rightarrow> map_option Next (flush_with_ids e ''torrent-start'' [] st))
      else if c = ch CHR ''S'' then
        (case tadd st of
           Some r \<Rightarrow>
             Some (Next (st\<lparr>tadd := Some (set_args r
                     (dictAdd (the_args r) (TR_KEY ''paused'') (VBool True)))\<rparr>))
         | None \<Rightarrow> map_option Next (flush_with_ids e ''torrent-stop'' [] st))
      else if c = ch CHR ''w'' then
        (case tadd st of
           Some r \<Rightarrow>
             Some (Next (st\<lparr>tadd := Some (set_args r
                     (dictAdd (the_args r) (TR_KEY ''download_dir'') (VStr (cstr optarg))))\<rparr>))
         | None \<Rightarrow>
             (let r = ensure_sset st
              in Some (Next (st\<lparr>sset := Some (set_args r
                     (dictAdd (the_args r) (TR_KEY ''download_dir'') (VStr (cstr optarg))))\<rparr>))))
      else if c = 850 then
        map_option Next
          (flush_status e \<lparr>rpc_method = ''session-close'', tag = None, arguments = None\<rparr> st)
      else if c = 963 then
        map_option Next
          (flush_status e \<lparr>rpc_method = ''blocklist-update'', tag = None, arguments = None\<rparr> st)
      else if c = 921 then
        map_option Next
          (flush_status e \<lparr>rpc_method = ''session-stats'', tag = Some TAG_STATS, arguments = None\<rparr> st)
      else if c = 962 then
        map_option Next
          (flush_status e \<lparr>rpc_method = ''port-test'', tag = Some TAG_PORTTEST, arguments = None\<rparr> st)
      else if c = 600 then
        do {
          st1 \<leftarrow> flush_tset e st;
          map_option Next (flush_with_ids e ''torrent-reannounce'' [] st1)
        }
      else if c = ch CHR ''v'' then
        do {
          st1 \<leftarrow> flush_tset e st;
          map_option Next (flush_with_ids e ''torrent-verify'' [] st1)
        }
      else if c = ch CHR ''r'' \<or> c = 840 then
        map_option Next
          (flush_with_ids e ''torrent-remove''
             [(TR_KEY ''delete_local_data'', VBool (c = 840))] st)
      else if c = 960 then
        map_option Next
          (flush_with_ids e ''torrent-set-location''
             [(TR_KEY ''location'', VStr (cstr optarg)), (TR_KEY ''move'', VBool True)] st)
      else Some (Next (say [GotOpt c, Usage] st)))"

subsection \<open>processArgs\<close>

text \<open>
  One pass of the \<open>while\<close> loop, for the option \<open>c\<close> and its argument as \<open>tr_getopt\<close>
  returned them.
\<close>

definition step :: "env \<Rightarrow> state \<Rightarrow> getopt \<Rightarrow> string option \<Rightarrow> outcome option" where
  "step e st c optarg =
     (case getOptMode c of
        None \<Rightarrow> Some (AssertFail (say [UnrecognizedArgument (case c of Opt v \<Rightarrow> v | _ \<Rightarrow> 0)] st))
      | Some stepMode \<Rightarrow>
          (case c of
             Opt v \<Rightarrow>
               if stepMode = 0 then meta e st c optarg
               else if stepMode = MODE_TORRENT_GET then torrentGet e st v
               else if stepMode = MODE_SESSION_SET then Some (sessionSet e st v optarg)
               else if stepMode = (MODE_SESSION_SET OR MODE_TORRENT_SET)
               then Some (limits st v optarg)
               else if stepMode = MODE_TORRENT_SET then Some (torrentSet st v optarg)
               else if stepMode = (MODE_TORRENT_SET OR MODE_TORRENT_ADD)
               then Some (torrentSetOrAdd e st v optarg)
               else if v = 961 then setLocationFind e st optarg
               else other e st v optarg
           | _ \<Rightarrow> meta e st c optarg))"






subsection \<open>An environment and a start state for examples\<close>

text \<open>
  A daemon that answers every request with code 200 and \<open>result: success\<close>, library
  routines that parse nothing, and the state of a freshly started client.
\<close>

definition example_env :: env where
  "example_env =
     \<lparr>tr_parseNumberRange = (\<lambda>s. []),
      tr_rpc_parse_list_str = VStr,
      tr_strvSep_labels = (\<lambda>s. [s]),
      getEncodedMetainfo = (\<lambda>s. []),
      TR_AUTH = None,
      transport = (\<lambda>p. Http 200 (Response (Some ''success'') None None))\<rparr>"

definition example_state :: state where
  "example_state =
     \<lparr>id_buf = [], debug = False, auth = None, netrc = None, UseSSL = False,
      sset = None, tset = None, tadd = None, status = 0, posted = [], printed = []\<rparr>"


subsection \<open>Notions used in the statements about processArgs\<close>

text \<open>
  Each pending request carries the method it was created with.
\<close>

definition pending_ok :: "state \<Rightarrow> bool" where
  "pending_ok st =
     ((case tadd st of None \<Rightarrow> True | Some r \<Rightarrow> rpc_method r = ''torrent-add'')
      \<and> (case tset st of None \<Rightarrow> True | Some r \<Rightarrow> rpc_method r = ''torrent-set'')
      \<and> (case sset st of None \<Rightarrow> True | Some r \<Rightarrow> rpc_method r = ''session-set''))"

text \<open>The requests posted after \<open>st\<close>, up to \<open>st'\<close>.\<close>

definition posted_since :: "state \<Rightarrow> state \<Rightarrow> request list" where
  "posted_since st st' = drop (length (posted st)) (posted st')"


text \<open>
  The keys whose entry is a list that a later option extends in place.
\<close>

definition grown_keys :: "tr_quark list" where
  "grown_keys = [TR_KEY ''trackerAdd'', TR_KEY ''trackerRemove'', TR_KEY ''labels'']"

text \<open>
  Every entry of \<open>a\<close> under another key is still an entry of \<open>a'\<close>.
\<close>

definition extends :: "dict \<Rightarrow> dict \<Rightarrow> bool" where
  "extends a a' = list_all (\<lambda>kv. fst kv \<in> set grown_keys \<or> kv \<in> set a') a"

text \<open>
  A later form of a request: the same method and tag, and the settings still there.
\<close>

definition kept :: "request \<Rightarrow> request \<Rightarrow> bool" where
  "kept r r' =
     (rpc_method r' = rpc_method r \<and> tag r' = tag r \<and> extends (the_args r) (the_args r'))"

text \<open>
  A pending request is still pending in a later form, or a later form of it is among
  the requests posted since.
\<close>

definition secured :: "request option \<Rightarrow> request option \<Rightarrow> request list \<Rightarrow> bool" where
  "secured slot slot' news =
     (case slot of
        None \<Rightarrow> True
      | Some r \<Rightarrow> (case slot' of Some r' \<Rightarrow> kept r r' | None \<Rightarrow> False) \<or> list_ex (kept r) news)"

text \<open>
  From \<open>st\<close> to \<open>st'\<close> no pending request is lost: the requests posted are only added
  to, and each of the three pending requests is secured.
\<close>

definition keeps :: "state \<Rightarrow> state \<Rightarrow> bool" where
  "keeps st st' =
     (take (length (posted st)) (posted st') = posted st
      \<and> secured (tadd st) (tadd st') (posted_since st st')
      \<and> secured (tset st) (tset st') (posted_since st st')
      \<and> secured (sset st) (sset st') (posted_since st st'))"







section \<open>Piece assembly\<close>

text \<open>
  Modelled from the spec: the engine that downloads and verifies pieces is code of
  libtransmission and is not among the sources of the command line client. This section
  follows sections 3, 4.1, 4.2, 4.4, 5, 6 and 7 of the specification. The cryptographic
  digest is the parameter \<open>H\<close>. Stored bytes change through the commit of a verified
  piece only.
\<close>

type_synonym byte = "8 word"
type_synonym peer_id = nat

text \<open>
  Modelled from the spec: \<open>PieceManifest\<close> (sections 3 and 4.1), without the file list:
  the piece count, the piece length, the total length and the expected digests, one for
  each piece.
\<close>

record 'h PieceManifest =
  piece_count :: nat
  piece_length :: nat
  total_length :: nat
  hashes :: "'h list"

text \<open>
  Modelled from the spec: \<open>pieceLength(index)\<close>; the last piece holds what is left of the
  total length.
\<close>

definition pieceLength :: "'h PieceManifest \<Rightarrow> nat \<Rightarrow> nat" where
  "pieceLength m index =
     (if Suc index = piece_count m then total_length m - index * piece_length m
      else piece_length m)"

text \<open>
  Modelled from the spec: \<open>expectedHash(index)\<close>; there is none for an index that is not
  the index of a piece.
\<close>

definition expectedHash :: "'h PieceManifest \<Rightarrow> nat \<Rightarrow> 'h option" where
  "expectedHash m index =
     (if index < piece_count m \<and> index < length (hashes m) then Some (hashes m ! index)
      else None)"

text \<open>
  Modelled from the spec: \<open>BitField\<close> (sections 3 and 4.2), a bit vector of fixed size with
  \<open>set\<close> and \<open>test\<close>.
\<close>

type_synonym BitField = "bool list"

definition BitField_set :: "BitField \<Rightarrow> nat \<Rightarrow> BitField" where
  "BitField_set b index = b[index := True]"

definition BitField_test :: "BitField \<Rightarrow> nat \<Rightarrow> bool" where
  "BitField_test b index = (index < length b \<and> b ! index)"

text \<open>
  Modelled from the spec: the two errors of the taxonomy (section 7) that the assembler
  meets.
\<close>

datatype engine_error = UnrequestedBlockError | IOError

text \<open>
  Modelled from the spec: the request state of a block in a \<open>PendingPiece\<close>;
  a received block holds its payload.
\<close>

datatype block_state = NotRequested | RequestedFrom peer_id nat | Received "byte list"

text \<open>
  Modelled from the spec: a \<open>PendingPiece\<close> is the list of the states of its blocks; the
  block at byte offset \<open>o\<close> is number \<open>o div block_length\<close>.
\<close>

type_synonym PendingPiece = "block_state list"

fun requested_from :: "peer_id \<Rightarrow> block_state \<Rightarrow> bool" where
  "requested_from peer (RequestedFrom p ts) = (p = peer)"
| "requested_from peer b = False"

fun is_received :: "block_state \<Rightarrow> bool" where
  "is_received (Received bytes) = True"
| "is_received b = False"

fun payload :: "block_state \<Rightarrow> byte list" where
  "payload (Received bytes) = bytes"
| "payload b = []"

text \<open>
  Modelled from the spec: the concatenated piece bytes over which the digest is computed.
\<close>

definition piece_bytes :: "PendingPiece \<Rightarrow> byte list" where
  "piece_bytes pp = concat (map payload pp)"

text \<open>
  Modelled from the spec: what a \<open>Torrent\<close> owns (section 3), as far as pieces are
  concerned: its manifest, its \<open>BitField\<close>, its set of \<open>PendingPiece\<close>s, and with them
  the bytes the \<open>Storage\<close> collaborator holds for each piece, whether storage can be
  written at the moment, the corruption-suspicion counter of each peer and the
  torrent-level error state.
\<close>

record 'h Torrent =
  manifest :: "'h PieceManifest"
  block_length :: nat
  bitfield :: BitField
  pending :: "nat \<rightharpoonup> PendingPiece"
  storage :: "nat \<rightharpoonup> byte list"
  writable :: bool
  suspicion :: "peer_id \<Rightarrow> nat"
  error_state :: "engine_error option"

text \<open>
  Modelled from the spec: the number of blocks of a piece.
\<close>

definition blockCount :: "'h Torrent \<Rightarrow> nat \<Rightarrow> nat" where
  "blockCount t piece =
     (pieceLength (manifest t) piece + block_length t - 1) div block_length t"

text \<open>
  Modelled from the spec: a torrent is created on add, with no piece possessed and none
  pending; \<open>disk\<close> is what storage holds at that time.
\<close>

definition addTorrent :: "'h PieceManifest \<Rightarrow> nat \<Rightarrow> (nat \<rightharpoonup> byte list) \<Rightarrow> 'h Torrent" where
  "addTorrent m bl disk =
     \<lparr>manifest = m, block_length = bl, bitfield = replicate (piece_count m) False,
      pending = Map.empty, storage = disk, writable = True, suspicion = (\<lambda>peer. 0),
      error_state = None\<rparr>"

text \<open>
  Modelled from the spec: a request issued to a peer for one block. The \<open>PendingPiece\<close>
  is created when the first block of the piece is requested.
\<close>

definition requestBlock :: "peer_id \<Rightarrow> nat \<Rightarrow> nat \<Rightarrow> nat \<Rightarrow> 'h Torrent \<Rightarrow> 'h Torrent" where
  "requestBlock peer piece offset now t =
     (let bl = block_length t; block = offset div bl
      in if piece < piece_count (manifest t) \<and> 0 < bl \<and> offset mod bl = 0
            \<and> block < blockCount t piece
         then
           (let pp = (case pending t piece of
                        None \<Rightarrow> replicate (blockCount t piece) NotRequested
                      | Some pp \<Rightarrow> pp)
            in if block < length pp \<and> pp ! block = NotRequested
               then t\<lparr>pending := (pending t)(piece \<mapsto> pp[block := RequestedFrom peer now])\<rparr>
               else t)
         else t)"

text \<open>
  Modelled from the spec: \<open>onBlockReceived\<close> (section 4.4). A block that is not tracked
  as requested from that peer is rejected with \<open>UnrequestedBlockError\<close>. Otherwise the
  payload is stored; when all blocks are present the digest of the piece bytes is
  compared with the expected one. On a match the bytes are committed to storage (which
  fails with \<open>IOError\<close> when storage cannot be written), the bit is marked and the
  \<open>PendingPiece\<close> discarded. On a mismatch the received blocks are discarded, the
  request states reset, and the suspicion counter of the peer incremented.
\<close>

definition onBlockReceived ::
  "(byte list \<Rightarrow> 'h) \<Rightarrow> peer_id \<Rightarrow> nat \<Rightarrow> nat \<Rightarrow> byte list \<Rightarrow> 'h Torrent
     \<Rightarrow> engine_error + 'h Torrent" where
  "onBlockReceived H peer piece offset data t =
     (case pending t piece of
        None \<Rightarrow> Inl UnrequestedBlockError
      | Some pp \<Rightarrow>
          (let bl = block_length t; block = offset div bl
           in if 0 < bl \<and> offset mod bl = 0 \<and> block < length pp
                 \<and> requested_from peer (pp ! block)
              then
                (let pp' = pp[block := Received data]
                 in if list_all is_received pp' then
                      (if Some (H (piece_bytes pp')) = expectedHash (manifest t) piece
                       then
                         (if writable t
                          then Inr (t\<lparr>storage := (storage t)(piece \<mapsto> piece_bytes pp'),
                                      bitfield := BitField_set (bitfield t) piece,
                                      pending := (pending t)(piece := None)\<rparr>)
                          else Inl IOError)
                       else Inr (t\<lparr>pending :=
                                     (pending t)(piece \<mapsto> replicate (length pp') NotRequested),
                                   suspicion := (suspicion t)(peer := Suc (suspicion t peer))\<rparr>))
                    else Inr (t\<lparr>pending := (pending t)(piece \<mapsto> pp')\<rparr>))
              else Inl UnrequestedBlockError))"

text \<open>
  Modelled from the spec: on stop the pending pieces are discarded (section 5).
\<close>

definition stop :: "'h Torrent \<Rightarrow> 'h Torrent" where
  "stop t = t\<lparr>pending := Map.empty\<rparr>"

text \<open>
  Modelled from the spec: the stored bytes of a piece re-hash to the expected digest.
\<close>

definition rehashes :: "(byte list \<Rightarrow> 'h) \<Rightarrow> 'h Torrent \<Rightarrow> nat \<Rightarrow> bool" where
  "rehashes H t p =
     (case storage t p of
        Some bytes \<Rightarrow> Some (H bytes) = expectedHash (manifest t) p
      | None \<Rightarrow> False)"

text \<open>
  Modelled from the spec: \<open>verifyExistingData\<close> (section 6) rebuilds the \<open>BitField\<close> from
  what is stored, by re-hashing each piece.
\<close>

definition verifyExistingData :: "(byte list \<Rightarrow> 'h) \<Rightarrow> 'h Torrent \<Rightarrow> 'h Torrent" where
  "verifyExistingData H t =
     t\<lparr>bitfield := map (rehashes H t) [0..<piece_count (manifest t)]\<rparr>"

text \<open>
  Modelled from the spec: what happens to a torrent, in the order in which the single
  scheduling context handles it.
\<close>

datatype event =
    Request peer_id nat nat nat
  | Block peer_id nat nat "byte list"
  | Stop
  | VerifyExistingData
  | DiskFails
  | DiskRecovers

text \<open>
  Modelled from the spec: an \<open>UnrequestedBlockError\<close> is logged and ignored, an
  \<open>IOError\<close> escalates to the error state of the torrent.
\<close>

fun apply_event :: "(byte list \<Rightarrow> 'h) \<Rightarrow> 'h Torrent \<Rightarrow> event \<Rightarrow> 'h Torrent" where
  "apply_event H t (Request peer piece offset now) = requestBlock peer piece offset now t"
| "apply_event H t (Block peer piece offset data) =
     (case onBlockReceived H peer piece offset data t of
        Inl UnrequestedBlockError \<Rightarrow> t
      | Inl IOError \<Rightarrow> t\<lparr>error_state := Some IOError\<rparr>
      | Inr t' \<Rightarrow> t')"
| "apply_event H t Stop = stop t"
| "apply_event H t VerifyExistingData = verifyExistingData H t"
| "apply_event H t DiskFails = t\<lparr>writable := False\<rparr>"
| "apply_event H t DiskRecovers = t\<lparr>writable := True\<rparr>"

definition run :: "(byte list \<Rightarrow> 'h) \<Rightarrow> 'h Torrent \<Rightarrow> event list \<Rightarrow> 'h Torrent" where
  "run H t evs = foldl (apply_event H) t evs"

text \<open>
  Every bit that is set stands for a piece whose stored bytes re-hash to the expected
  digest.
\<close>

definition verified :: "(byte list \<Rightarrow> 'h) \<Rightarrow> 'h Torrent \<Rightarrow> bool" where
  "verified H t = list_all (\<lambda>p. bitfield t ! p \<longrightarrow> rehashes H t p) [0..<length (bitfield t)]"

text \<open>
  An example: two pieces in blocks of two bytes, with the sum of the bytes as digest.
  The second piece arrives corrupt, and the first is completed while storage fails and
  then again after it has recovered.
\<close>

definition example_manifest :: "nat PieceManifest" where
  "example_manifest = \<lparr>piece_count = 2, piece_length = 4, total_length = 6, hashes = [10, 11]\<rparr>"

definition example_digest :: "byte list \<Rightarrow> nat" where
  "example_digest bytes = sum_list (map unat bytes)"

definition example_events :: "event list" where
  "example_events =
     [Request 7 0 0 100, Request 8 0 2 101, Request 7 1 0 102,
      Block 8 0 2 [3, 4], Block 7 1 0 [5, 5], DiskFails, Block 7 0 0 [1, 2], DiskRecovers,
      Block 7 0 0 [1, 2], Block 7 0 0 [1, 2]]"

section \<open>Properties\<close>

subsection \<open>The ratio formatter\<close>

text \<open>
  C9. For every pair of 64-bit integers handed to the ratio formatter the quotient is
  formed only when the denominator is nonzero: a quotient that \<open>strlratio\<close> forms never
  has a zero divisor and is the quotient of the two arguments; with a zero denominator
  the value is the infinity marker when the numerator is nonzero and the not-applicable
  marker when both are zero.
\<close>

theorem strlratio_division_guarded:
  "(denominator \<noteq> 0 \<longrightarrow> strlratio_ratio numerator denominator = Quotient numerator denominator)
   \<and> (denominator = 0 \<and> numerator \<noteq> 0 \<longrightarrow> strlratio_ratio numerator denominator = TR_RATIO_INF)
   \<and> (denominator = 0 \<and> numerator = 0 \<longrightarrow> strlratio_ratio numerator denominator = TR_RATIO_NA)
   \<and> (\<forall>n d. strlratio_ratio numerator denominator = Quotient n d
          \<longrightarrow> d \<noteq> 0 \<and> n = numerator \<and> d = denominator)
   \<and> strlratio f numerator denominator = f (strlratio_ratio numerator denominator) ''Inf''"
  by (simp add: strlratio_ratio_def strlratio_def strlratio2_def)

theorem strlratio_division_guarded_witness:
  "strlratio_ratio 6 3 = Quotient 6 3
   \<and> strlratio_ratio 5 0 = TR_RATIO_INF
   \<and> strlratio_ratio 0 0 = TR_RATIO_NA"
proof -
  have q: "strlratio_ratio 6 3 = Quotient 6 3"
    using strlratio_division_guarded [of 3 6] by simp
  have i: "strlratio_ratio 5 0 = TR_RATIO_INF"
    using strlratio_division_guarded [of 0 5] by simp
  have n: "strlratio_ratio 0 0 = TR_RATIO_NA"
    using strlratio_division_guarded [of 0 0] by simp
  from q i n show ?thesis by blast
qed

subsection \<open>Facts about flush\<close>

text \<open>
  A call of \<open>flush\<close> that returns has posted its request one or more times (once for
  each answer 409 and once more) and has left the pending requests and \<open>status\<close> alone.
\<close>

lemma processResponse_frame:
  "processResponse body st = (s, st') \<Longrightarrow>
     posted st' = posted st \<and> printed st' = printed st \<and> tadd st' = tadd st \<and>
     tset st' = tset st \<and> sset st' = sset st \<and> status st' = status st"
  by (auto simp: processResponse_def split: response.splits option.splits if_splits)

lemma flush_posted:
  "flush e req st = Some r \<Longrightarrow> \<exists>k. posted (snd r) = posted st @ replicate (Suc k) req"
proof (induction rule: flush.raw_induct [rotated 1, consumes 1])
  case (1 fl e benc st r)
  note IH = 1(1) and body = 1(2)
  let ?st1 = "st\<lparr>posted := posted st @ [benc]\<rparr>"
  show ?case
  proof (cases "transport e (posted ?st1)")
    case CurlError
    with body have "r = (EXIT_FAILURE, ?st1)" by (simp add: Let_def)
    then have "posted (snd r) = posted st @ replicate (Suc 0) benc" by simp
    then show ?thesis by blast
  next
    case (Http code body)
    consider "code = 200" | "code \<noteq> 200" "code = 409" | "code \<noteq> 200" "code \<noteq> 409" by blast
    then show ?thesis
    proof cases
      case 1
      with Http body have "r = processResponse body ?st1" by (simp add: Let_def)
      then have "posted (snd r) = posted ?st1"
        using processResponse_frame [of body ?st1 "fst r" "snd r"] by simp
      then have "posted (snd r) = posted st @ replicate (Suc 0) benc" by simp
      then show ?thesis by blast
    next
      case 2
      with Http body have "fl e benc ?st1 = Some r" by (simp add: Let_def)
      from IH [OF this] obtain k where "posted (snd r) = posted ?st1 @ replicate (Suc k) benc"
        by blast
      then have "posted (snd r) = posted st @ replicate (Suc (Suc k)) benc" by simp
      then show ?thesis by blast
    next
      case 3
      with Http body have "r = (EXIT_FAILURE, say [UnexpectedResponse] ?st1)"
        by (simp add: Let_def)
      then have "posted (snd r) = posted st @ replicate (Suc 0) benc" by (simp add: say_def)
      then show ?thesis by blast
    qed
  qed
qed

lemma flush_frame:
  "flush e req st = Some r \<Longrightarrow>
     tadd (snd r) = tadd st \<and> tset (snd r) = tset st \<and> sset (snd r) = sset st
     \<and> status (snd r) = status st"
proof (induction rule: flush.raw_induct [rotated 1, consumes 1])
  case (1 fl e benc st r)
  note IH = 1(1) and body = 1(2)
  let ?st1 = "st\<lparr>posted := posted st @ [benc]\<rparr>"
  show ?case
  proof (cases "transport e (posted ?st1)")
    case CurlError
    with body show ?thesis by (auto simp: Let_def)
  next
    case (Http code body)
    consider "code = 200" | "code \<noteq> 200" "code = 409" | "code \<noteq> 200" "code \<noteq> 409" by blast
    then show ?thesis
    proof cases
      case 1
      with Http body have "r = processResponse body ?st1" by (simp add: Let_def)
      then show ?thesis
        using processResponse_frame [of body ?st1 "fst r" "snd r"] by simp
    next
      case 2
      with Http body have "fl e benc ?st1 = Some r" by (simp add: Let_def)
      from IH [OF this] show ?thesis by simp
    next
      case 3
      with Http body have "r = (EXIT_FAILURE, say [UnexpectedResponse] ?st1)"
        by (simp add: Let_def)
      then show ?thesis by (simp add: say_def)
    qed
  qed
qed


subsection \<open>Torrent ids\<close>




subsection \<open>Schedule times\<close>

lemma atoi_ab: "atoi ''ab'' = 0"
  by (simp add: atoi_def strtol_def isspace_def isdigit_def int_of_long_def)
lemma atoi_12: "atoi ''12'' = 12"
  by (simp add: atoi_def strtol_def isspace_def isdigit_def int_of_long_def decimal_def digit_value_def LONG_MAX_def LONG_MIN_def)

text \<open>
  C7. The claim makes \<open>addTime\<close> send a value exactly for a four character argument
  \<open>hhmm\<close> with an hour below 24 and a minute below 60, and print an error for every
  other argument. \<open>addTime\<close> reads both halves with \<open>atoi\<close>, which yields 0 for text
  that does not start with a number: the argument \<open>ab12\<close> is accepted and 12 is sent.
\<close>

theorem addTime_accepts_non_digits:
  "addTime args key (Some ''ab12'') = (dictAdd args key (VInt 12), [])"
  by (simp add: addTime_def atoi_ab atoi_12)


subsection \<open>Schedule days\<close>






subsection \<open>The pending requests\<close>

lemma say_simps [simp]:
  "posted (say m st) = posted st" "tadd (say m st) = tadd st" "tset (say m st) = tset st"
  "sset (say m st) = sset st" "id_buf (say m st) = id_buf st" "status (say m st) = status st"
  "printed (say m st) = printed st @ m"
  by (simp_all add: say_def)

lemma set_args_simps [simp]:
  "rpc_method (set_args r a) = rpc_method r" "tag (set_args r a) = tag r"
  "the_args (set_args r a) = a" "arguments (set_args r a) = Some a"
  by (simp_all add: set_args_def the_args_def)

lemma addIdArg_shape:
  "\<exists>ids. fst (addIdArg e args i fb) = args @ ids \<and> (ids = [] \<or> (\<exists>v. ids = [(TR_KEY ''ids'', v)]))"
  by (simp add: addIdArg_def dictAdd_def Let_def split: prod.splits if_splits)

lemma flush_status_effect:
  assumes "flush_status e req st = Some st'"
  shows "(\<exists>k. posted st' = posted st @ replicate (Suc k) req)
         \<and> tadd st' = tadd st \<and> tset st' = tset st \<and> sset st' = sset st"
proof -
  from assms obtain r where r: "flush e req st = Some r" and st': "st' = (snd r)\<lparr>status := status (snd r) OR fst r\<rparr>"
    by (auto simp: flush_status_def split: prod.splits)
  from flush_posted [OF r] flush_frame [OF r] show ?thesis unfolding st' by simp
qed







lemma pending_ok_frame:
  "tadd st' = tadd st \<Longrightarrow> tset st' = tset st \<Longrightarrow> sset st' = sset st \<Longrightarrow>
   pending_ok st \<Longrightarrow> pending_ok st'"
  by (simp add: pending_ok_def)






lemma step_dispatch:
  "getOptMode (Opt v) = Some m \<Longrightarrow>
   step e st (Opt v) optarg =
     (if m = 0 then meta e st (Opt v) optarg
      else if m = MODE_TORRENT_GET then torrentGet e st v
      else if m = MODE_SESSION_SET then Some (sessionSet e st v optarg)
      else if m = (MODE_SESSION_SET OR MODE_TORRENT_SET) then Some (limits st v optarg)
      else if m = MODE_TORRENT_SET then Some (torrentSet st v optarg)
      else if m = (MODE_TORRENT_SET OR MODE_TORRENT_ADD) then Some (torrentSetOrAdd e st v optarg)
      else if v = 961 then setLocationFind e st optarg
      else other e st v optarg)"
  unfolding step_def by (simp del: getOptMode.simps meta.simps)

lemmas MODE_defs = MODE_TORRENT_START_def MODE_TORRENT_STOP_def MODE_TORRENT_VERIFY_def
  MODE_TORRENT_REANNOUNCE_def MODE_TORRENT_SET_def MODE_TORRENT_GET_def MODE_TORRENT_ADD_def
  MODE_TORRENT_REMOVE_def MODE_TORRENT_SET_LOCATION_def MODE_SESSION_SET_def
  MODE_SESSION_GET_def MODE_SESSION_STATS_def MODE_SESSION_CLOSE_def
  MODE_BLOCKLIST_UPDATE_def MODE_PORT_TEST_def

lemma step_is_other:
  "v \<in> {ch CHR ''r'', 840, ch CHR ''v'', 960, ch CHR ''s'', ch CHR ''S''} \<Longrightarrow>
   step e st (Opt v) optarg = other e st v optarg"
proof -
  assume "v \<in> {ch CHR ''r'', 840, ch CHR ''v'', 960, ch CHR ''s'', ch CHR ''S''}"
  then consider "v = 114" | "v = 840" | "v = 118" | "v = 960" | "v = 115" | "v = 83"
    by auto
  then show ?thesis
  proof cases
    case 1
    have "getOptMode (Opt 114) = Some MODE_TORRENT_REMOVE" by simp
    from step_dispatch [OF this] show ?thesis unfolding 1 by (simp add: MODE_defs del: meta.simps)
  next
    case 2
    have "getOptMode (Opt 840) = Some MODE_TORRENT_REMOVE" by simp
    from step_dispatch [OF this] show ?thesis unfolding 2 by (simp add: MODE_defs del: meta.simps)
  next
    case 3
    have "getOptMode (Opt 118) = Some MODE_TORRENT_VERIFY" by simp
    from step_dispatch [OF this] show ?thesis unfolding 3 by (simp add: MODE_defs del: meta.simps)
  next
    case 4
    have "getOptMode (Opt 960) = Some MODE_TORRENT_SET_LOCATION" by simp
    from step_dispatch [OF this] show ?thesis unfolding 4 by (simp add: MODE_defs del: meta.simps)
  next
    case 5
    have "getOptMode (Opt 115) = Some (MODE_TORRENT_START OR MODE_TORRENT_ADD)" by simp
    from step_dispatch [OF this] show ?thesis unfolding 5 by (simp add: MODE_defs del: meta.simps)
  next
    case 6
    have "getOptMode (Opt 83) = Some (MODE_TORRENT_STOP OR MODE_TORRENT_ADD)" by simp
    from step_dispatch [OF this] show ?thesis unfolding 6 by (simp add: MODE_defs del: meta.simps)
  qed
qed















subsection \<open>The core commands\<close>








lemma extends_iff:
  "extends a a' \<longleftrightarrow> (\<forall>kv \<in> set a. fst kv \<notin> set grown_keys \<longrightarrow> kv \<in> set a')"
  by (auto simp: extends_def list_all_iff)

lemma extends_refl [simp]: "extends a a"
  by (simp add: extends_iff)


lemma extends_append [simp]: "extends a (a @ b)"
  by (simp add: extends_iff)

lemma extends_dictAdd [simp]: "extends a (dictAdd a k v)"
  by (simp add: dictAdd_def)



lemma kept_refl [simp]: "kept r r"
  by (simp add: kept_def)




lemma secured_same [simp]: "secured slot slot news"
  by (simp add: secured_def split: option.splits)

lemma secured_None [simp]: "secured None slot' news"
  by (simp add: secured_def)




lemma keepsI:
  "posted st' = posted st @ news \<Longrightarrow> secured (tadd st) (tadd st') news \<Longrightarrow>
   secured (tset st) (tset st') news \<Longrightarrow> secured (sset st) (sset st') news \<Longrightarrow> keeps st st'"
  by (simp add: keeps_def posted_since_def)


lemma keeps_refl [simp]: "keeps st st"
  by (rule keepsI [of _ _ "[]"]) simp_all


























































text \<open>
  C2. For the plain remove option and for remove-and-delete, the step of the option
  loop is the flush of one \<open>torrent-remove\<close> request whose arguments hold exactly one
  \<open>delete_local_data\<close> entry, and that entry is true exactly for option 840; when the
  step returns, this request is what has been posted.
\<close>

theorem remove_delete_local_data:
  assumes c: "c = ch CHR ''r'' \<or> c = 840"
  shows "\<exists>args msgs.
           step e st (Opt c) optarg =
             map_option Next
               (flush_status e \<lparr>rpc_method = ''torrent-remove'', tag = None, arguments = Some args\<rparr>
                  (say msgs st))
           \<and> map snd (filter (\<lambda>kv. fst kv = TR_KEY ''delete_local_data'') args) = [VBool (c = 840)]
           \<and> (\<forall>st'. step e st (Opt c) optarg = Some (Next st') \<longrightarrow>
                 (\<exists>k. posted st' = posted st @ replicate (Suc k)
                        \<lparr>rpc_method = ''torrent-remove'', tag = None, arguments = Some args\<rparr>))"
proof -
  let ?a0 = "[(TR_KEY ''delete_local_data'', VBool (c = 840))]"
  obtain args msgs where a: "addIdArg e ?a0 (id_buf st) None = (args, msgs)" by fastforce
  let ?req = "\<lparr>rpc_method = ''torrent-remove'', tag = None, arguments = Some args\<rparr>"
  from addIdArg_shape [of e ?a0 "id_buf st" None] a
  obtain ids where ids: "args = ?a0 @ ids" "ids = [] \<or> (\<exists>v. ids = [(TR_KEY ''ids'', v)])"
    by auto
  from c have "step e st (Opt c) optarg = other e st c optarg" by (intro step_is_other) auto
  with c a have s: "step e st (Opt c) optarg = map_option Next (flush_status e ?req (say msgs st))"
    by (auto simp: other_def flush_with_ids_def)
  from ids have f: "map snd (filter (\<lambda>kv. fst kv = TR_KEY ''delete_local_data'') args) = [VBool (c = 840)]"
    by auto
  have p: "\<forall>st'. step e st (Opt c) optarg = Some (Next st') \<longrightarrow>
             (\<exists>k. posted st' = posted st @ replicate (Suc k) ?req)"
  proof (intro allI impI)
    fix st' assume h: "step e st (Opt c) optarg = Some (Next st')"
    have "map_option Next (flush_status e ?req (say msgs st)) = Some (Next st')"
      using h unfolding s .
    then have "flush_status e ?req (say msgs st) = Some st'" by auto
    from flush_status_effect [OF this] show "\<exists>k. posted st' = posted st @ replicate (Suc k) ?req"
      by simp
  qed
  show ?thesis
  proof (intro exI conjI)
    show "step e st (Opt c) optarg = map_option Next (flush_status e ?req (say msgs st))"
      by (fact s)
    show "map snd (filter (\<lambda>kv. fst kv = TR_KEY ''delete_local_data'') args) = [VBool (c = 840)]"
      by (fact f)
    show "\<forall>st'. step e st (Opt c) optarg = Some (Next st') \<longrightarrow>
             (\<exists>k. posted st' = posted st @ replicate (Suc k) ?req)"
      by (fact p)
  qed
qed

theorem remove_delete_local_data_witness:
  "\<exists>st' args. step example_env example_state (Opt 840) None = Some (Next st')
      \<and> posted st' = [\<lparr>rpc_method = ''torrent-remove'', tag = None, arguments = Some args\<rparr>]
      \<and> map snd (filter (\<lambda>kv. fst kv = TR_KEY ''delete_local_data'') args) = [VBool True]"
proof -
  let ?S = "\<lparr>id_buf = [], debug = False, auth = None, netrc = None, UseSSL = False,
      sset = None, tset = None, tadd = None, status = 0,
      posted = [\<lparr>rpc_method = ''torrent-remove'', tag = None,
                 arguments = Some [(TR_KEY ''delete_local_data'', VBool True),
                                   (TR_KEY ''ids'', VStr ''-1'')]\<rparr>],
      printed = [NoTorrentSpecified]\<rparr>"
  have ev: "step example_env example_state (Opt 840) None = Some (Next ?S)"
    by code_simp
  have "(840::int) = ch CHR ''r'' \<or> (840::int) = 840" by simp
  from remove_delete_local_data [OF this, of example_env example_state None]
  obtain args msgs where
    s: "step example_env example_state (Opt 840) None =
             map_option Next
               (flush_status example_env
                  \<lparr>rpc_method = ''torrent-remove'', tag = None, arguments = Some args\<rparr>
                  (say msgs example_state))"
    and f: "map snd (filter (\<lambda>kv. fst kv = TR_KEY ''delete_local_data'') args) = [VBool ((840::int) = 840)]"
    and p: "\<forall>st'. step example_env example_state (Opt 840) None = Some (Next st') \<longrightarrow>
              (\<exists>k. posted st' = posted example_state @ replicate (Suc k)
                 \<lparr>rpc_method = ''torrent-remove'', tag = None, arguments = Some args\<rparr>)"
    by (elim exE conjE) (rule that)
  from p ev obtain k where "posted ?S = posted example_state @ replicate (Suc k)
      \<lparr>rpc_method = ''torrent-remove'', tag = None, arguments = Some args\<rparr>" by blast
  then have pS: "posted ?S = [\<lparr>rpc_method = ''torrent-remove'', tag = None, arguments = Some args\<rparr>]"
    by (simp add: example_state_def)
  from f
  have f': "map snd (filter (\<lambda>kv. fst kv = TR_KEY ''delete_local_data'') args) = [VBool True]"
    by simp
  show ?thesis
    by (intro exI conjI) (rule ev, rule pS, rule f')
qed




subsection \<open>The state shown for a torrent\<close>

lemma tr_strlcpy_fits: "length src < buflen \<Longrightarrow> tr_strlcpy src buflen = src"
  by (simp add: tr_strlcpy_def)

text \<open>
  C5. In a buffer of at least twelve characters (the callers pass 64 and 512): a stopped
  torrent is shown as \<open>Finished\<close> when \<open>isFinished\<close> is found true and as \<open>Stopped\<close>
  otherwise; the two checking states are shown as \<open>Will Verify\<close> and \<open>Verifying\<close>,
  followed by the recheck percentage when \<open>recheckProgress\<close> is found (cut to the
  buffer); a downloading or seeding torrent is shown as \<open>Up & Down\<close> with peers in both
  directions, as \<open>Idle\<close> with none, and with uploading peers only as \<open>Uploading\<close>
  while \<open>leftUntilDone\<close> is positive and as \<open>Seeding\<close> otherwise.
\<close>

theorem getStatusString_states:
  assumes b: "12 \<le> buflen"
  shows
  "(status_found t = Some TR_STATUS_STOPPED \<longrightarrow>
      getStatusString percent0 t buflen =
        (if isFinished t = Some True then ''Finished'' else ''Stopped''))
   \<and> (status_found t = Some TR_STATUS_CHECK_WAIT \<longrightarrow>
      getStatusString percent0 t buflen =
        (case recheckProgress t of
           Some p \<Rightarrow> tr_strlcpy (''Will Verify ('' @ percent0 p @ ''%)'') buflen
         | None \<Rightarrow> ''Will Verify''))
   \<and> (status_found t = Some TR_STATUS_CHECK \<longrightarrow>
      getStatusString percent0 t buflen =
        (case recheckProgress t of
           Some p \<Rightarrow> tr_strlcpy (''Verifying ('' @ percent0 p @ ''%)'') buflen
         | None \<Rightarrow> ''Verifying''))
   \<and> (status_found t = Some TR_STATUS_DOWNLOAD \<or> status_found t = Some TR_STATUS_SEED \<longrightarrow>
      (found_or 0 (peersGettingFromUs t) \<noteq> 0 \<and> found_or 0 (peersSendingToUs t) \<noteq> 0 \<longrightarrow>
         getStatusString percent0 t buflen = ''Up & Down'')
      \<and> (found_or 0 (peersGettingFromUs t) = 0 \<and> found_or 0 (peersSendingToUs t) = 0 \<longrightarrow>
         getStatusString percent0 t buflen = ''Idle'')
      \<and> (found_or 0 (peersGettingFromUs t) \<noteq> 0 \<and> found_or 0 (peersSendingToUs t) = 0 \<longrightarrow>
         getStatusString percent0 t buflen =
           (if 0 <s found_or 0 (leftUntilDone t) then ''Uploading'' else ''Seeding'')))"
proof -
  from b have fits: "tr_strlcpy ''Finished'' buflen = ''Finished''"
    "tr_strlcpy ''Stopped'' buflen = ''Stopped''"
    "tr_strlcpy ''Will Verify'' buflen = ''Will Verify''"
    "tr_strlcpy ''Verifying'' buflen = ''Verifying''"
    "tr_strlcpy ''Up & Down'' buflen = ''Up & Down''"
    "tr_strlcpy ''Idle'' buflen = ''Idle''"
    "tr_strlcpy ''Uploading'' buflen = ''Uploading''"
    "tr_strlcpy ''Seeding'' buflen = ''Seeding''"
    by (simp_all add: tr_strlcpy_fits)
  have stopped: "status_found t = Some TR_STATUS_STOPPED \<longrightarrow>
      getStatusString percent0 t buflen =
        (if isFinished t = Some True then ''Finished'' else ''Stopped'')"
    by (simp add: getStatusString_def fits)
  have cw: "status_found t = Some TR_STATUS_CHECK_WAIT \<longrightarrow>
      getStatusString percent0 t buflen =
        (case recheckProgress t of
           Some p \<Rightarrow> tr_strlcpy (''Will Verify ('' @ percent0 p @ ''%)'') buflen
         | None \<Rightarrow> ''Will Verify'')"
    by (simp add: getStatusString_def fits split: option.splits)
  have c: "status_found t = Some TR_STATUS_CHECK \<longrightarrow>
      getStatusString percent0 t buflen =
        (case recheckProgress t of
           Some p \<Rightarrow> tr_strlcpy (''Verifying ('' @ percent0 p @ ''%)'') buflen
         | None \<Rightarrow> ''Verifying'')"
    by (simp add: getStatusString_def fits split: option.splits)
  have a: "status_found t = Some TR_STATUS_DOWNLOAD \<or> status_found t = Some TR_STATUS_SEED \<longrightarrow>
      (found_or 0 (peersGettingFromUs t) \<noteq> 0 \<and> found_or 0 (peersSendingToUs t) \<noteq> 0 \<longrightarrow>
         getStatusString percent0 t buflen = ''Up & Down'')
      \<and> (found_or 0 (peersGettingFromUs t) = 0 \<and> found_or 0 (peersSendingToUs t) = 0 \<longrightarrow>
         getStatusString percent0 t buflen = ''Idle'')
      \<and> (found_or 0 (peersGettingFromUs t) \<noteq> 0 \<and> found_or 0 (peersSendingToUs t) = 0 \<longrightarrow>
         getStatusString percent0 t buflen =
           (if 0 <s found_or 0 (leftUntilDone t) then ''Uploading'' else ''Seeding''))"
    by (auto simp: getStatusString_def Let_def fits)
  from stopped cw c a show ?thesis by (intro conjI)
qed

theorem getStatusString_states_witness:
  "getStatusString (\<lambda>p. ''50'') example_torrent 64 = ''Seeding''
   \<and> getStatusString (\<lambda>p. ''50'') (example_torrent\<lparr>leftUntilDone := Some 1\<rparr>) 64 = ''Uploading''
   \<and> getStatusString (\<lambda>p. ''50'')
        (example_torrent\<lparr>status_found := Some TR_STATUS_CHECK, recheckProgress := Some ()\<rparr>) 512
      = ''Verifying (50%)''"
proof -
  have b: "(12::nat) \<le> 64" "(12::nat) \<le> 512" by simp_all
  have s: "getStatusString (\<lambda>p. ''50'') example_torrent 64 = ''Seeding''"
    using getStatusString_states [OF b(1), of example_torrent "\<lambda>p. ''50''"]
    by (simp add: example_torrent_def found_or_def word_sless_alt)
  have u: "getStatusString (\<lambda>p. ''50'') (example_torrent\<lparr>leftUntilDone := Some 1\<rparr>) 64 = ''Uploading''"
    using getStatusString_states [OF b(1), of "example_torrent\<lparr>leftUntilDone := Some 1\<rparr>" "\<lambda>p. ''50''"]
    by (simp add: example_torrent_def found_or_def word_sless_alt)
  have v: "getStatusString (\<lambda>p. ''50'')
        (example_torrent\<lparr>status_found := Some TR_STATUS_CHECK, recheckProgress := Some ()\<rparr>) 512
      = ''Verifying (50%)''"
    using getStatusString_states [OF b(2),
        of "example_torrent\<lparr>status_found := Some TR_STATUS_CHECK, recheckProgress := Some ()\<rparr>"
          "\<lambda>p. ''50''"]
    by (simp add: example_torrent_def tr_strlcpy_def)
  from s u v show ?thesis by (intro conjI)
qed

subsection \<open>Completion percentages\<close>

lemma printTorrentList_doneStr_guarded:
  "printTorrentList_doneStr s l = Percent n d \<Longrightarrow> d \<noteq> 0"
  by (auto simp: printTorrentList_doneStr_def split: if_splits)

text \<open>
  C6 fails in the details view. For a torrent whose \<open>sizeWhenDone\<close> and
  \<open>leftUntilDone\<close> are both zero, \<open>printDetails\<close> prints \<open>Percent Done\<close> from
  \<open>100.0 * (0 - 0) / 0\<close>, and after \<open>Availability: None\<close> it prints a second
  \<open>Availability\<close> line with divisor zero as well; the list view prints \<open>n/a\<close> there.
\<close>

theorem printDetails_divides_by_zero:
  "divisors (printDetails_percent_done unwanted_torrent) = [0]
   \<and> printDetails_availability unwanted_torrent
       = [AvailabilityNone, Availability (Percent 0 0)]
   \<and> printTorrentList_doneStr 0 0 = NotAvailable"
  by (simp add: printDetails_percent_done_def printDetails_availability_def
      printTorrentList_doneStr_def word_sless_alt unwanted_torrent_def)

subsection \<open>The limits of the session\<close>

lemma printSession_limits_not_found:
  "\<not> all_found args \<Longrightarrow> printSession_limits fmt rt args = []"
  by (auto simp: printSession_limits_def all_found_def bind_eq_None_conv split: option.splits)

text \<open>
  C4. When the reply to \<open>session-get\<close> holds all the fields of the limits block, the
  effective upload limit printed is the turtle limit if the turtle limits are enabled,
  whether or not the normal limit is; otherwise the normal limit if that is enabled;
  otherwise \<open>Unlimited\<close>; likewise for download. When a field of the block is missing
  nothing is printed of the limits.
\<close>

theorem printSession_effective_limits:
  assumes "alt_speed_enabled args = Some altEnabled"
    and "alt_speed_up args = Some altUp" and "alt_speed_down args = Some altDown"
    and "speed_limit_up_enabled args = Some upEnabled" and "speed_limit_up args = Some upLimit"
    and "speed_limit_down_enabled args = Some downEnabled"
    and "speed_limit_down args = Some downLimit"
  shows "(all_found args \<longrightarrow>
            effective_up (printSession_limits fmt rt args) =
              [if altEnabled then fmt altUp else if upEnabled then fmt upLimit else ''Unlimited'']
            \<and> effective_down (printSession_limits fmt rt args) =
              [if altEnabled then fmt altDown else if downEnabled then fmt downLimit
               else ''Unlimited''])
         \<and> (\<not> all_found args \<longrightarrow> printSession_limits fmt rt args = [])"
proof (intro conjI impI)
  assume a: "all_found args"
  then obtain altBegin altTimeEnabled altEnd altDay peerLimit srl srld where
    f: "alt_speed_time_begin args = Some altBegin" "alt_speed_time_enabled args = Some altTimeEnabled"
       "alt_speed_time_end args = Some altEnd" "alt_speed_time_day args = Some altDay"
       "peer_limit_global args = Some peerLimit" "seedRatioLimit args = Some srl"
       "seedRatioLimited args = Some srld"
    by (auto simp: all_found_def)
  show "effective_up (printSession_limits fmt rt args) =
          [if altEnabled then fmt altUp else if upEnabled then fmt upLimit else ''Unlimited'']"
    using assms f by (simp add: printSession_limits_def)
  show "effective_down (printSession_limits fmt rt args) =
          [if altEnabled then fmt altDown else if downEnabled then fmt downLimit
           else ''Unlimited'']"
    using assms f by (simp add: printSession_limits_def)
next
  assume "\<not> all_found args"
  then show "printSession_limits fmt rt args = []" by (rule printSession_limits_not_found)
qed

lemma example_speed_values:
  "example_speed 20 = ''20 kB/s''" "example_speed 50 = ''50 kB/s''"
  "example_speed 100 = ''100 kB/s''"
  by code_simp+

theorem printSession_effective_limits_witness:
  "effective_up (printSession_limits example_speed (\<lambda>r. ''2.00'') example_session) = [''20 kB/s'']
   \<and> effective_down (printSession_limits example_speed (\<lambda>r. ''2.00'') example_session)
       = [''50 kB/s'']
   \<and> effective_down (printSession_limits example_speed (\<lambda>r. ''2.00'')
        (example_session\<lparr>alt_speed_enabled := Some False\<rparr>)) = [''100 kB/s'']
   \<and> effective_up (printSession_limits example_speed (\<lambda>r. ''2.00'')
        (example_session\<lparr>alt_speed_enabled := Some False\<rparr>)) = [''Unlimited'']"
proof -
  have a: "effective_up (printSession_limits example_speed (\<lambda>r. ''2.00'') example_session) = [''20 kB/s'']
   \<and> effective_down (printSession_limits example_speed (\<lambda>r. ''2.00'') example_session)
       = [''50 kB/s'']"
    using printSession_effective_limits [of example_session True 20 50 False 100 True 100
        example_speed "\<lambda>r. ''2.00''"]
    by (simp add: example_session_def all_found_def example_speed_values)
  have b: "effective_down (printSession_limits example_speed (\<lambda>r. ''2.00'')
        (example_session\<lparr>alt_speed_enabled := Some False\<rparr>)) = [''100 kB/s'']
   \<and> effective_up (printSession_limits example_speed (\<lambda>r. ''2.00'')
        (example_session\<lparr>alt_speed_enabled := Some False\<rparr>)) = [''Unlimited'']"
    using printSession_effective_limits [of "example_session\<lparr>alt_speed_enabled := Some False\<rparr>"
        False 20 50 False 100 True 100 example_speed "\<lambda>r. ''2.00''"]
    by (simp add: example_session_def all_found_def example_speed_values)
  from a b show ?thesis by simp
qed

subsection \<open>Verified pieces\<close>

lemma verifiedD:
  "verified H t \<Longrightarrow> BitField_test (bitfield t) p \<Longrightarrow> rehashes H t p"
  by (auto simp: verified_def BitField_test_def list_all_iff)

lemma verifiedI:
  "(\<And>p. p < length (bitfield t) \<Longrightarrow> bitfield t ! p \<Longrightarrow> rehashes H t p) \<Longrightarrow> verified H t"
  by (auto simp: verified_def list_all_iff)

lemma rehashes_frame:
  "storage t' p = storage t p \<Longrightarrow> manifest t' = manifest t \<Longrightarrow> rehashes H t' p = rehashes H t p"
  by (simp add: rehashes_def split: option.splits)

lemma verified_frame:
  assumes "verified H t" and "bitfield t' = bitfield t" and "storage t' = storage t"
    and "manifest t' = manifest t"
  shows "verified H t'"
proof (rule verifiedI)
  fix p assume "p < length (bitfield t')" "bitfield t' ! p"
  with assms have "BitField_test (bitfield t) p" by (simp add: BitField_test_def)
  from verifiedD [OF assms(1) this] have "rehashes H t p" .
  moreover from assms have "rehashes H t' p = rehashes H t p" by (intro rehashes_frame) simp_all
  ultimately show "rehashes H t' p" by simp
qed

lemma verified_addTorrent: "verified H (addTorrent m bl disk)"
  by (rule verifiedI) (simp add: addTorrent_def)

lemma requestBlock_frame:
  "bitfield (requestBlock peer piece offset now t) = bitfield t"
  "storage (requestBlock peer piece offset now t) = storage t"
  "manifest (requestBlock peer piece offset now t) = manifest t"
  by (simp_all add: requestBlock_def Let_def)

lemma verified_requestBlock: "verified H t \<Longrightarrow> verified H (requestBlock peer piece offset now t)"
  by (erule verified_frame) (simp_all add: requestBlock_frame)

lemma verified_stop: "verified H t \<Longrightarrow> verified H (stop t)"
  by (erule verified_frame) (simp_all add: stop_def)

lemma verified_verifyExistingData: "verified H (verifyExistingData H t)"
proof (rule verifiedI)
  fix p
  assume "p < length (bitfield (verifyExistingData H t))" "bitfield (verifyExistingData H t) ! p"
  then have "rehashes H t p" by (simp add: verifyExistingData_def)
  moreover have "rehashes H (verifyExistingData H t) p = rehashes H t p"
    by (rule rehashes_frame) (simp_all add: verifyExistingData_def)
  ultimately show "rehashes H (verifyExistingData H t) p" by simp
qed

lemma onBlockReceived_cases:
  assumes "onBlockReceived H peer piece offset data t = Inr t'"
  obtains (commit) pp where "pending t piece = Some pp" "writable t"
      "list_all is_received (pp[offset div block_length t := Received data])"
      "Some (H (piece_bytes (pp[offset div block_length t := Received data])))
         = expectedHash (manifest t) piece"
      "t' = t\<lparr>storage := (storage t)(piece \<mapsto>
                  piece_bytes (pp[offset div block_length t := Received data])),
              bitfield := BitField_set (bitfield t) piece,
              pending := (pending t)(piece := None)\<rparr>"
    | (keep) "bitfield t' = bitfield t" "storage t' = storage t" "manifest t' = manifest t"
  using assms
  by (auto simp: onBlockReceived_def Let_def split: option.splits if_splits)

lemma verified_onBlockReceived:
  assumes v: "verified H t" and r: "onBlockReceived H peer piece offset data t = Inr t'"
  shows "verified H t'"
  using r
proof (cases rule: onBlockReceived_cases)
  case (commit pp)
  show ?thesis
  proof (rule verifiedI)
    fix p assume p: "p < length (bitfield t')" "bitfield t' ! p"
    show "rehashes H t' p"
    proof (cases "p = piece")
      case True
      with commit show ?thesis by (simp add: rehashes_def)
    next
      case False
      with p commit have "BitField_test (bitfield t) p"
        by (simp add: BitField_test_def BitField_set_def)
      from verifiedD [OF v this] have "rehashes H t p" .
      moreover from False commit have "rehashes H t' p = rehashes H t p"
        by (intro rehashes_frame) simp_all
      ultimately show ?thesis by simp
    qed
  qed
next
  case keep
  show ?thesis by (rule verified_frame [OF v]) (simp_all add: keep)
qed

lemma verified_apply_event:
  assumes v: "verified H t"
  shows "verified H (apply_event H t ev)"
proof (cases ev)
  case (Request peer piece offset now)
  with v show ?thesis by (simp add: verified_requestBlock)
next
  case (Block peer piece offset data)
  show ?thesis
  proof (cases "onBlockReceived H peer piece offset data t")
    case (Inl err)
    have "verified H (t\<lparr>error_state := Some IOError\<rparr>)"
      by (rule verified_frame [OF v]) simp_all
    with Inl Block v show ?thesis by (cases err) simp_all
  next
    case (Inr t')
    from verified_onBlockReceived [OF v Inr] Block Inr show ?thesis by simp
  qed
next
  case Stop
  with v show ?thesis by (simp add: verified_stop)
next
  case VerifyExistingData
  then show ?thesis by (simp add: verified_verifyExistingData)
next
  case DiskFails
  have "verified H (t\<lparr>writable := False\<rparr>)" by (rule verified_frame [OF v]) simp_all
  with DiskFails show ?thesis by simp
next
  case DiskRecovers
  have "verified H (t\<lparr>writable := True\<rparr>)" by (rule verified_frame [OF v]) simp_all
  with DiskRecovers show ?thesis by simp
qed

lemma verified_run: "verified H t \<Longrightarrow> verified H (run H t evs)"
  unfolding run_def by (induction evs arbitrary: t) (simp_all add: verified_apply_event)

lemma manifest_onBlockReceived:
  "onBlockReceived H peer piece offset data t = Inr t' \<Longrightarrow> manifest t' = manifest t"
  by (erule onBlockReceived_cases) simp_all

lemma manifest_apply_event: "manifest (apply_event H t ev) = manifest t"
proof (cases ev)
  case (Request peer piece offset now)
  then show ?thesis by (simp add: requestBlock_frame)
next
  case (Block peer piece offset data)
  show ?thesis
  proof (cases "onBlockReceived H peer piece offset data t")
    case (Inl err)
    with Block show ?thesis by (cases err) simp_all
  next
    case (Inr t')
    with Block show ?thesis by (simp add: manifest_onBlockReceived)
  qed
next
  case Stop
  then show ?thesis by (simp add: stop_def)
next
  case VerifyExistingData
  then show ?thesis by (simp add: verifyExistingData_def)
next
  case DiskFails
  then show ?thesis by simp
next
  case DiskRecovers
  then show ?thesis by simp
qed

lemma manifest_run: "manifest (run H t evs) = manifest t"
  unfolding run_def by (induction evs arbitrary: t) (simp_all add: manifest_apply_event)

text \<open>
  C3. After any sequence of events on a torrent that was added, every piece whose bit is
  set has stored bytes that hash to the expected digest of the piece; and a block that
  arrives sets a bit only for its own piece, only when with it all blocks of the piece are
  received and their bytes hash to the expected digest, and only with these bytes stored.
\<close>

theorem bitfield_implies_verified_piece:
  "(\<forall>p. BitField_test (bitfield (run H (addTorrent m bl disk) evs)) p \<longrightarrow>
        (\<exists>bytes. storage (run H (addTorrent m bl disk) evs) p = Some bytes
           \<and> Some (H bytes) = expectedHash m p))
   \<and> (\<forall>t peer piece offset data t' p.
        onBlockReceived H peer piece offset data t = Inr t'
        \<and> \<not> BitField_test (bitfield t) p \<and> BitField_test (bitfield t') p \<longrightarrow>
        p = piece
        \<and> (\<exists>pp. pending t piece = Some pp \<and> writable t
              \<and> list_all is_received (pp[offset div block_length t := Received data])
              \<and> Some (H (piece_bytes (pp[offset div block_length t := Received data])))
                  = expectedHash (manifest t) piece
              \<and> storage t' piece
                  = Some (piece_bytes (pp[offset div block_length t := Received data]))))"
proof (intro conjI allI impI)
  fix p
  let ?t = "run H (addTorrent m bl disk) evs"
  assume b: "BitField_test (bitfield ?t) p"
  have "verified H ?t" by (rule verified_run) (rule verified_addTorrent)
  from verifiedD [OF this b] have "rehashes H ?t p" .
  moreover have "manifest ?t = m" by (simp add: manifest_run addTorrent_def)
  ultimately show "\<exists>bytes. storage ?t p = Some bytes \<and> Some (H bytes) = expectedHash m p"
    by (auto simp: rehashes_def split: option.splits)
next
  fix t :: "'a Torrent" and peer piece offset data t' p
  assume a: "onBlockReceived H peer piece offset data t = Inr t'
        \<and> \<not> BitField_test (bitfield t) p \<and> BitField_test (bitfield t') p"
  then have r: "onBlockReceived H peer piece offset data t = Inr t'"
    and n: "\<not> BitField_test (bitfield t) p" and s: "BitField_test (bitfield t') p" by simp_all
  from r show "p = piece" 
  proof (cases rule: onBlockReceived_cases)
    case (commit pp)
    show ?thesis
    proof (rule ccontr)
      assume "p \<noteq> piece"
      with commit have "BitField_test (bitfield t') p = BitField_test (bitfield t) p"
        by (simp add: BitField_test_def BitField_set_def)
      with n s show False by simp
    qed
  next
    case keep
    with n s show ?thesis by simp
  qed
  from r show "\<exists>pp. pending t piece = Some pp \<and> writable t
              \<and> list_all is_received (pp[offset div block_length t := Received data])
              \<and> Some (H (piece_bytes (pp[offset div block_length t := Received data])))
                  = expectedHash (manifest t) piece
              \<and> storage t' piece
                  = Some (piece_bytes (pp[offset div block_length t := Received data]))"
  proof (cases rule: onBlockReceived_cases)
    case (commit pp)
    then show ?thesis by simp
  next
    case keep
    with n s show ?thesis by simp
  qed
qed

theorem bitfield_implies_verified_piece_witness:
  "BitField_test
     (bitfield (run example_digest (addTorrent example_manifest 2 Map.empty) example_events)) 0
   \<and> (\<exists>bytes.
         storage (run example_digest (addTorrent example_manifest 2 Map.empty) example_events) 0
           = Some bytes
         \<and> example_digest bytes = 10)
   \<and> \<not> BitField_test
     (bitfield (run example_digest (addTorrent example_manifest 2 Map.empty) example_events)) 1"
proof -
  let ?R = "run example_digest (addTorrent example_manifest 2 Map.empty) example_events"
  have b: "bitfield ?R = [True, False]" by code_simp
  then have b0: "BitField_test (bitfield ?R) 0" and b1: "\<not> BitField_test (bitfield ?R) 1"
    by (simp_all add: BitField_test_def)
  have h: "expectedHash example_manifest 0 = Some 10"
    by (simp add: expectedHash_def example_manifest_def)
  from bitfield_implies_verified_piece [of example_digest example_manifest 2 Map.empty
      example_events, THEN conjunct1, rule_format, OF b0]
  have "\<exists>bytes. storage ?R 0 = Some bytes \<and> example_digest bytes = 10"
    unfolding h by simp
  with b0 b1 show ?thesis by (intro conjI)
qed


end
